theory Spec2Isabelle
  imports Complex_Main
begin

section \<open>The canonical colour model\<close>

text \<open>
  \<^verbatim>\<open>AnsiColors\<close> and \<^verbatim>\<open>ThemeColors\<close> of \<^verbatim>\<open>shared/types/theme\<close>: sixteen ANSI slots
  nested in a record of six core slots. Strings are lists of bytes (the UTF-8 text); all
  the text the translation layer inspects is ASCII.
\<close>

record AnsiColors =
  black :: string
  red :: string
  green :: string
  yellow :: string
  blue :: string
  magenta :: string
  cyan :: string
  white :: string
  brightBlack :: string
  brightRed :: string
  brightGreen :: string
  brightYellow :: string
  brightBlue :: string
  brightMagenta :: string
  brightCyan :: string
  brightWhite :: string

record ThemeColors =
  background :: string
  foreground :: string
  cursor :: string
  cursorText :: string
  selection :: string
  selectionText :: string
  ansi :: AnsiColors

text \<open>The 22 required slots of a theme, core slots first, then ANSI 0 to 15.\<close>

definition slots :: "ThemeColors \<Rightarrow> string list" where
  "slots c =
     [background c, foreground c, cursor c, cursorText c, selection c, selectionText c,
      black (ansi c), red (ansi c), green (ansi c), yellow (ansi c),
      blue (ansi c), magenta (ansi c), cyan (ansi c), white (ansi c),
      brightBlack (ansi c), brightRed (ansi c), brightGreen (ansi c), brightYellow (ansi c),
      brightBlue (ansi c), brightMagenta (ansi c), brightCyan (ansi c), brightWhite (ansi c)]"

definition populated :: "ThemeColors \<Rightarrow> bool" where
  "populated c = list_all (\<lambda>s. s \<noteq> []) (slots c)"

section \<open>The theme store lookup\<close>

text \<open>
  A row of the \<^verbatim>\<open>theme_colors\<close> table: \<^verbatim>\<open>(theme_id, color_key, hex_value)\<close>, all three
  \<^verbatim>\<open>TEXT NOT NULL\<close>. The query \<^verbatim>\<open>SELECT color_key, hex_value ... WHERE theme_id = ?\<close>
  keeps the rows of one theme.
\<close>

type_synonym color_row = "string \<times> string \<times> string"

definition selectColors :: "color_row list \<Rightarrow> string \<Rightarrow> (string \<times> string) list" where
  "selectColors db themeId = map snd (filter (\<lambda>r. fst r = themeId) db)"

text \<open>\<^verbatim>\<open>new Map(pairs).get(k)\<close>: a later pair with the same key replaces an earlier one.\<close>

definition mapGet :: "(string \<times> string) list \<Rightarrow> string \<Rightarrow> string option" where
  "mapGet pairs k = map_of (rev pairs) k"

text \<open>
  \<^verbatim>\<open>v || d\<close> on a value that is a string or \<^verbatim>\<open>undefined\<close>: the empty string and
  \<^verbatim>\<open>undefined\<close> are falsy.
\<close>

definition orElse :: "string option \<Rightarrow> string \<Rightarrow> string" where
  "orElse v d = (case v of None \<Rightarrow> d | Some s \<Rightarrow> if s = [] then d else s)"

text \<open>The object literal that \<^verbatim>\<open>getThemeColors\<close> and \<^verbatim>\<open>getFullThemeColors\<close> both return.\<close>

definition colorsFromMap :: "(string \<Rightarrow> string option) \<Rightarrow> ThemeColors" where
  "colorsFromMap m =
     \<lparr> background = orElse (m ''background'') ''#000000'',
       foreground = orElse (m ''foreground'') ''#ffffff'',
       cursor = orElse (m ''cursor'') ''#ffffff'',
       cursorText = orElse (m ''cursorText'') ''#000000'',
       selection = orElse (m ''selection'') ''#444444'',
       selectionText = orElse (m ''selectionText'') ''#ffffff'',
       ansi =
         \<lparr> black = orElse (m ''ansi_black'') ''#000000'',
           red = orElse (m ''ansi_red'') ''#ff0000'',
           green = orElse (m ''ansi_green'') ''#00ff00'',
           yellow = orElse (m ''ansi_yellow'') ''#ffff00'',
           blue = orElse (m ''ansi_blue'') ''#0000ff'',
           magenta = orElse (m ''ansi_magenta'') ''#ff00ff'',
           cyan = orElse (m ''ansi_cyan'') ''#00ffff'',
           white = orElse (m ''ansi_white'') ''#ffffff'',
           brightBlack = orElse (m ''ansi_brightBlack'') ''#666666'',
           brightRed = orElse (m ''ansi_brightRed'') ''#ff6666'',
           brightGreen = orElse (m ''ansi_brightGreen'') ''#66ff66'',
           brightYellow = orElse (m ''ansi_brightYellow'') ''#ffff66'',
           brightBlue = orElse (m ''ansi_brightBlue'') ''#6666ff'',
           brightMagenta = orElse (m ''ansi_brightMagenta'') ''#ff66ff'',
           brightCyan = orElse (m ''ansi_brightCyan'') ''#66ffff'',
           brightWhite = orElse (m ''ansi_brightWhite'') ''#ffffff'' \<rparr> \<rparr>"

text \<open>\<^verbatim>\<open>getThemeColors\<close> of the desktop installer module; \<^verbatim>\<open>None\<close> is \<^verbatim>\<open>null\<close>.\<close>

definition getThemeColors :: "color_row list \<Rightarrow> string \<Rightarrow> ThemeColors option" where
  "getThemeColors db themeId =
     (let colors = selectColors db themeId in
      if length colors = 0 then None
      else Some (colorsFromMap (mapGet colors)))"

text \<open>\<^verbatim>\<open>getFullThemeColors\<close> of the command-line module: the same body on a passed handle.\<close>

definition getFullThemeColors :: "color_row list \<Rightarrow> string \<Rightarrow> ThemeColors option" where
  "getFullThemeColors db themeId =
     (let colors = selectColors db themeId in
      if length colors = 0 then None
      else Some (colorsFromMap (mapGet colors)))"

text \<open>The slot keys and the built-in default each falls back to, in the order of \<open>slots\<close>.\<close>

definition slotDefaults :: "(string \<times> string) list" where
  "slotDefaults =
     [(''background'', ''#000000''), (''foreground'', ''#ffffff''), (''cursor'', ''#ffffff''),
      (''cursorText'', ''#000000''), (''selection'', ''#444444''), (''selectionText'', ''#ffffff''),
      (''ansi_black'', ''#000000''), (''ansi_red'', ''#ff0000''), (''ansi_green'', ''#00ff00''),
      (''ansi_yellow'', ''#ffff00''), (''ansi_blue'', ''#0000ff''), (''ansi_magenta'', ''#ff00ff''),
      (''ansi_cyan'', ''#00ffff''), (''ansi_white'', ''#ffffff''),
      (''ansi_brightBlack'', ''#666666''), (''ansi_brightRed'', ''#ff6666''),
      (''ansi_brightGreen'', ''#66ff66''), (''ansi_brightYellow'', ''#ffff66''),
      (''ansi_brightBlue'', ''#6666ff''), (''ansi_brightMagenta'', ''#ff66ff''),
      (''ansi_brightCyan'', ''#66ffff''), (''ansi_brightWhite'', ''#ffffff'')]"

section \<open>Text helpers\<close>

text \<open>
  The character classes of the source's regular expressions and of \<^verbatim>\<open>String.prototype.trim\<close>,
  restricted to their ASCII members: \<^verbatim>\<open>\s\<close> is tab, line feed, vertical tab, form feed,
  carriage return and space; \<^verbatim>\<open>\w\<close> is \<^verbatim>\<open>[A-Za-z0-9_]\<close>.
\<close>

definition isSpace :: "char \<Rightarrow> bool" where
  "isSpace c = (c \<in> set [CHR 0x09, CHR 0x0A, CHR 0x0B, CHR 0x0C, CHR 0x0D, CHR 0x20])"

definition isWord :: "char \<Rightarrow> bool" where
  "isWord c = (c \<in> set ''abcdefghijklmnopqrstuvwxyzABCDEFGHIJKLMNOPQRSTUVWXYZ0123456789_'')"

definition isHexDigit :: "char \<Rightarrow> bool" where
  "isHexDigit c = (c \<in> set ''0123456789abcdefABCDEF'')"

definition toLowerChar :: "char \<Rightarrow> char" where
  "toLowerChar c =
     (case map_of (zip ''ABCDEFGHIJKLMNOPQRSTUVWXYZ'' ''abcdefghijklmnopqrstuvwxyz'') c of
        Some l \<Rightarrow> l
      | None \<Rightarrow> c)"

definition toLowerCase :: "string \<Rightarrow> string" where
  "toLowerCase s = map toLowerChar s"

definition trim :: "string \<Rightarrow> string" where
  "trim s = rev (dropWhile isSpace (rev (dropWhile isSpace s)))"

definition startsWith :: "string \<Rightarrow> string \<Rightarrow> bool" where
  "startsWith s p = (take (length p) s = p)"

definition endsWith :: "string \<Rightarrow> string \<Rightarrow> bool" where
  "endsWith s p = (length p \<le> length s \<and> drop (length s - length p) s = p)"

text \<open>\<^verbatim>\<open>s.split('\n')\<close>: always at least one piece; the separators are dropped.\<close>

fun splitLines :: "string \<Rightarrow> string list" where
  "splitLines [] = [[]]"
| "splitLines (c # cs) =
     (if c = CHR 0x0A then [] # splitLines cs
      else (case splitLines cs of
              [] \<Rightarrow> [[c]]
            | l # ls \<Rightarrow> (c # l) # ls))"

text \<open>Six hexadecimal digits at the start of a string: \<^verbatim>\<open>[0-9a-fA-F]{6}\<close>.\<close>

definition hex6 :: "string \<Rightarrow> bool" where
  "hex6 s = (6 \<le> length s \<and> list_all isHexDigit (take 6 s))"

section \<open>The line-oriented conf parser (Kitty)\<close>

text \<open>
  \<^verbatim>\<open>trimmed.match(/^(\w+)\s+(#[0-9a-fA-F]{6})/)\<close>. The classes \<^verbatim>\<open>\w\<close>, \<^verbatim>\<open>\s\<close> and
  \<^verbatim>\<open>#\<close> are pairwise disjoint, so the greedy runs never give a character back: the key
  is the longest run of word characters, then the longest run of spaces, then the colour.
\<close>

definition kittyMatch :: "string \<Rightarrow> (string \<times> string) option" where
  "kittyMatch s =
     (let key = takeWhile isWord s;
          afterKey = dropWhile isWord s;
          rest = dropWhile isSpace afterKey
      in if key \<noteq> [] \<and> takeWhile isSpace afterKey \<noteq> [] \<and>
            startsWith rest ''#'' \<and> hex6 (drop 1 rest)
         then Some (key, take 7 rest)
         else None)"

text \<open>The body of the \<^verbatim>\<open>for\<close> loop over the lines: one line, the map so far, the map after.\<close>

definition kittyLine :: "string \<Rightarrow> (string \<rightharpoonup> string) \<Rightarrow> (string \<rightharpoonup> string)" where
  "kittyLine line colors =
     (let trimmed = trim line in
      if trimmed = [] \<or> startsWith trimmed ''#'' then colors
      else (case kittyMatch trimmed of
              Some (k, v) \<Rightarrow> colors(k \<mapsto> toLowerCase v)
            | None \<Rightarrow> colors))"

definition kittyColors :: "string \<Rightarrow> (string \<rightharpoonup> string)" where
  "kittyColors content = fold kittyLine (splitLines content) Map.empty"

text \<open>\<^verbatim>\<open>getColor(key, fallback) = colors[key] || fallback\<close>, shared by both config parsers.\<close>

definition getColorOr :: "(string \<rightharpoonup> string) \<Rightarrow> string \<Rightarrow> string \<Rightarrow> string" where
  "getColorOr colors key fallback = orElse (colors key) fallback"

definition kittyTheme :: "(string \<rightharpoonup> string) \<Rightarrow> ThemeColors" where
  "kittyTheme colors =
     \<lparr> background = getColorOr colors ''background'' ''#1d1f21'',
       foreground = getColorOr colors ''foreground'' ''#c5c8c6'',
       cursor = getColorOr colors ''cursor'' (getColorOr colors ''foreground'' ''#c5c8c6''),
       cursorText = getColorOr colors ''cursor_text_color'' (getColorOr colors ''background'' ''#1d1f21''),
       selection = getColorOr colors ''selection_background'' ''#373b41'',
       selectionText = getColorOr colors ''selection_foreground'' (getColorOr colors ''foreground'' ''#c5c8c6''),
       ansi =
         \<lparr> black = getColorOr colors ''color0'' ''#1d1f21'',
           red = getColorOr colors ''color1'' ''#cc6666'',
           green = getColorOr colors ''color2'' ''#b5bd68'',
           yellow = getColorOr colors ''color3'' ''#f0c674'',
           blue = getColorOr colors ''color4'' ''#81a2be'',
           magenta = getColorOr colors ''color5'' ''#b294bb'',
           cyan = getColorOr colors ''color6'' ''#8abeb7'',
           white = getColorOr colors ''color7'' ''#c5c8c6'',
           brightBlack = getColorOr colors ''color8'' ''#969896'',
           brightRed = getColorOr colors ''color9'' ''#de935f'',
           brightGreen = getColorOr colors ''color10'' ''#b5bd68'',
           brightYellow = getColorOr colors ''color11'' ''#f0c674'',
           brightBlue = getColorOr colors ''color12'' ''#81a2be'',
           brightMagenta = getColorOr colors ''color13'' ''#b294bb'',
           brightCyan = getColorOr colors ''color14'' ''#8abeb7'',
           brightWhite = getColorOr colors ''color15'' ''#ffffff'' \<rparr> \<rparr>"

section \<open>The block-style parser (Alacritty)\<close>

text \<open>The three loop variables of \<^verbatim>\<open>parseAlacritty\<close>.\<close>

record alacrittyState =
  colorsOf :: "string \<rightharpoonup> string"
  currentSection :: string
  inColors :: bool

text \<open>
  The value group \<^verbatim>\<open>(#?[0-9a-fA-F]{6}|0x[0-9a-fA-F]{6})\<close>, matched at the start of a
  string: the first alternative with or without its \<^verbatim>\<open>#\<close>, else the second.
\<close>

definition alacrittyValue :: "string \<Rightarrow> string option" where
  "alacrittyValue r =
     (if startsWith r ''#'' \<and> hex6 (drop 1 r) then Some (take 7 r)
      else if hex6 r then Some (take 6 r)
      else if startsWith r ''0x'' \<and> hex6 (drop 2 r) then Some (take 8 r)
      else None)"

text \<open>
  \<^verbatim>\<open>trimmed.match(/^(\w+):\s*['"]?(...)['"]?/)\<close>. No quote, \<^verbatim>\<open>#\<close>, digit or letter is
  a space, and the value cannot start at a quote, so here too no run gives a character
  back; the closing quote is optional and decides nothing.
\<close>

definition alacrittyMatch :: "string \<Rightarrow> (string \<times> string) option" where
  "alacrittyMatch s =
     (let key = takeWhile isWord s;
          afterKey = dropWhile isWord s;
          afterSpace = dropWhile isSpace (drop 1 afterKey);
          afterQuote = (if startsWith afterSpace [CHR 0x27] \<or> startsWith afterSpace [CHR 0x22]
                        then drop 1 afterSpace else afterSpace)
      in if key \<noteq> [] \<and> startsWith afterKey '':''
         then (case alacrittyValue afterQuote of
                 Some v \<Rightarrow> Some (key, v)
               | None \<Rightarrow> None)
         else None)"

text \<open>\<^verbatim>\<open>s.replace(':', '')\<close>: the first colon only.\<close>

definition removeFirstColon :: "string \<Rightarrow> string" where
  "removeFirstColon s = takeWhile (\<lambda>c. c \<noteq> CHR '':'') s @ drop 1 (dropWhile (\<lambda>c. c \<noteq> CHR '':'') s)"

definition normalizeValue :: "string \<Rightarrow> string" where
  "normalizeValue v0 =
     (let v1 = (if startsWith v0 ''0x'' then ''#'' @ drop 2 v0 else v0);
          v2 = (if \<not> startsWith v1 ''#'' then ''#'' @ v1 else v1)
      in toLowerCase v2)"

definition alacrittyLine :: "string \<Rightarrow> alacrittyState \<Rightarrow> alacrittyState" where
  "alacrittyLine line st =
     (let trimmed = trim line in
      if trimmed = [] \<or> startsWith trimmed ''#'' then st
      else if trimmed = ''colors:'' then st\<lparr>inColors := True\<rparr>
      else if \<not> inColors st then st
      else if endsWith trimmed '':'' \<and> CHR 0x27 \<notin> set trimmed \<and> CHR 0x22 \<notin> set trimmed
        then st\<lparr>currentSection := trim (removeFirstColon trimmed)\<rparr>
      else (case alacrittyMatch trimmed of
              Some (key, v) \<Rightarrow>
                (let fullKey = (if currentSection st \<noteq> [] then currentSection st @ ''.'' @ key else key)
                 in st\<lparr>colorsOf := (colorsOf st)(fullKey \<mapsto> normalizeValue v)\<rparr>)
            | None \<Rightarrow> st))"

definition alacrittyColors :: "string \<Rightarrow> (string \<rightharpoonup> string)" where
  "alacrittyColors content =
     colorsOf (fold alacrittyLine (splitLines content)
                 \<lparr>colorsOf = Map.empty, currentSection = [], inColors = False\<rparr>)"

definition alacrittyTheme :: "(string \<rightharpoonup> string) \<Rightarrow> ThemeColors" where
  "alacrittyTheme colors =
     \<lparr> background = getColorOr colors ''primary.background'' ''#1d1f21'',
       foreground = getColorOr colors ''primary.foreground'' ''#c5c8c6'',
       cursor = getColorOr colors ''cursor.cursor'' (getColorOr colors ''primary.foreground'' ''#c5c8c6''),
       cursorText = getColorOr colors ''cursor.text'' (getColorOr colors ''primary.background'' ''#1d1f21''),
       selection = getColorOr colors ''selection.background'' ''#373b41'',
       selectionText = getColorOr colors ''selection.foreground'' (getColorOr colors ''primary.foreground'' ''#c5c8c6''),
       ansi =
         \<lparr> black = getColorOr colors ''normal.black'' ''#1d1f21'',
           red = getColorOr colors ''normal.red'' ''#cc6666'',
           green = getColorOr colors ''normal.green'' ''#b5bd68'',
           yellow = getColorOr colors ''normal.yellow'' ''#f0c674'',
           blue = getColorOr colors ''normal.blue'' ''#81a2be'',
           magenta = getColorOr colors ''normal.magenta'' ''#b294bb'',
           cyan = getColorOr colors ''normal.cyan'' ''#8abeb7'',
           white = getColorOr colors ''normal.white'' ''#c5c8c6'',
           brightBlack = getColorOr colors ''bright.black'' ''#969896'',
           brightRed = getColorOr colors ''bright.red'' ''#de935f'',
           brightGreen = getColorOr colors ''bright.green'' ''#b5bd68'',
           brightYellow = getColorOr colors ''bright.yellow'' ''#f0c674'',
           brightBlue = getColorOr colors ''bright.blue'' ''#81a2be'',
           brightMagenta = getColorOr colors ''bright.magenta'' ''#b294bb'',
           brightCyan = getColorOr colors ''bright.cyan'' ''#8abeb7'',
           brightWhite = getColorOr colors ''bright.white'' ''#ffffff'' \<rparr> \<rparr>"

section \<open>JavaScript values, errors and the environment\<close>

text \<open>
  A value produced by \<^verbatim>\<open>JSON.parse\<close>. A number is the exact value of the IEEE double it
  is (a rational; \<^verbatim>\<open>JSON.parse\<close> yields no \<^verbatim>\<open>NaN\<close>, and an infinite number is outside
  the model); an object is the list of its properties in their own order, with distinct
  keys.
\<close>

datatype json =
    JNull
  | JBool bool
  | JNum rat
  | JStr string
  | JArr "json list"
  | JObj "(string \<times> json) list"

text \<open>
  What the parsers raise. \<open>Error m\<close> is \<^verbatim>\<open>new Error(m)\<close> thrown by the source itself;
  \<open>Rethrown m e\<close> is \<^verbatim>\<open>new Error(m + e)\<close> built in a \<^verbatim>\<open>catch\<close> block from the caught
  \<open>e\<close>; the other three are raised by the runtime (\<^verbatim>\<open>JSON.parse\<close>, a property read on
  \<^verbatim>\<open>null\<close>, a file-system call).
\<close>

datatype error =
    Error string
  | Rethrown string error
  | SyntaxError
  | TypeError
  | SystemError

text \<open>
  The collaborators outside the repository: the file system, the \<^verbatim>\<open>plutil\<close> utility
  (the JSON text it leaves in the temporary file for a path, \<open>None\<close> when the command
  fails), \<^verbatim>\<open>JSON.parse\<close> (\<open>None\<close> when it throws) and the ECMAScript number conversion of
  strings, arrays and objects (\<open>None\<close> is \<^verbatim>\<open>NaN\<close>).
\<close>

record env =
  existsSync :: "string \<Rightarrow> bool"
  readFileSync :: "string \<Rightarrow> string option"
  plutil :: "string \<Rightarrow> string option"
  jsonParse :: "string \<Rightarrow> json option"
  toNumber :: "json \<Rightarrow> rat option"

text \<open>The interface \<^verbatim>\<open>ParsedTheme\<close> and the JavaScript object a value of it is.\<close>

record ParsedTheme =
  name :: string
  colors :: ThemeColors

definition ansiJson :: "AnsiColors \<Rightarrow> json" where
  "ansiJson a =
     JObj [(''black'', JStr (black a)), (''red'', JStr (red a)), (''green'', JStr (green a)),
           (''yellow'', JStr (yellow a)), (''blue'', JStr (blue a)), (''magenta'', JStr (magenta a)),
           (''cyan'', JStr (cyan a)), (''white'', JStr (white a)),
           (''brightBlack'', JStr (brightBlack a)), (''brightRed'', JStr (brightRed a)),
           (''brightGreen'', JStr (brightGreen a)), (''brightYellow'', JStr (brightYellow a)),
           (''brightBlue'', JStr (brightBlue a)), (''brightMagenta'', JStr (brightMagenta a)),
           (''brightCyan'', JStr (brightCyan a)), (''brightWhite'', JStr (brightWhite a))]"

definition colorsJson :: "ThemeColors \<Rightarrow> json" where
  "colorsJson c =
     JObj [(''background'', JStr (background c)), (''foreground'', JStr (foreground c)),
           (''cursor'', JStr (cursor c)), (''cursorText'', JStr (cursorText c)),
           (''selection'', JStr (selection c)), (''selectionText'', JStr (selectionText c)),
           (''ansi'', ansiJson (ansi c))]"

definition themeJson :: "ParsedTheme \<Rightarrow> json" where
  "themeJson t = JObj [(''name'', JStr (name t)), (''colors'', colorsJson (colors t))]"

text \<open>JavaScript truthiness of a parsed value; \<open>None\<close> is \<^verbatim>\<open>undefined\<close>.\<close>

fun truthy :: "json option \<Rightarrow> bool" where
  "truthy None = False"
| "truthy (Some JNull) = False"
| "truthy (Some (JBool b)) = b"
| "truthy (Some (JNum x)) = (x \<noteq> 0)"
| "truthy (Some (JStr s)) = (s \<noteq> [])"
| "truthy (Some (JArr xs)) = True"
| "truthy (Some (JObj kvs)) = True"

text \<open>
  \<^verbatim>\<open>v[k]\<close> for a value that is not \<^verbatim>\<open>null\<close> and a key that is neither an index nor the
  name of a built-in property (every key the source reads is a fixed word such as
  \<^verbatim>\<open>colors\<close> or \<^verbatim>\<open>Red Component\<close>): only an object has such a property.
\<close>

fun lookup :: "json \<Rightarrow> string \<Rightarrow> json option" where
  "lookup (JObj kvs) k = map_of kvs k"
| "lookup _ k = None"

section \<open>Paths\<close>

text \<open>
  \<^verbatim>\<open>path.extname\<close> and \<^verbatim>\<open>path.basename\<close> of Node (POSIX flavour), from their documented
  behaviour: the extension runs from the last dot of the last path component, and is
  empty when there is no dot, when the only dot leads the component, and for \<^verbatim>\<open>..\<close>.
\<close>

definition lastComponent :: "string \<Rightarrow> string" where
  "lastComponent p =
     rev (takeWhile (\<lambda>c. c \<noteq> CHR ''/'') (dropWhile (\<lambda>c. c = CHR ''/'') (rev p)))"

definition extname :: "string \<Rightarrow> string" where
  "extname p =
     (let comp = lastComponent p;
          ext = CHR ''.'' # rev (takeWhile (\<lambda>c. c \<noteq> CHR ''.'') (rev comp))
      in if CHR ''.'' \<notin> set comp then []
         else if length ext = length comp then []
         else if comp = ''..'' then []
         else ext)"

definition basename :: "string \<Rightarrow> string \<Rightarrow> string" where
  "basename p suffix =
     (let comp = lastComponent p in
      if suffix \<noteq> [] \<and> length suffix \<le> length p then
        (if suffix = p then []
         else if endsWith comp suffix \<and> comp \<noteq> suffix
           then take (length comp - length suffix) comp
         else comp)
      else comp)"

section \<open>Colour dictionaries with float components\<close>

text \<open>
  Arithmetic on numbers is IEEE double arithmetic: the exact result, rounded to the
  nearest double, a tie going to the even significand. \<open>roundHalfEven\<close> rounds to an
  integer that way.
\<close>

definition roundHalfEven :: "rat \<Rightarrow> int" where
  "roundHalfEven q =
     (let f = \<lfloor>q\<rfloor>; r = q - of_int f
      in if r < 1 / 2 then f
         else if 1 / 2 < r then f + 1
         else if even f then f
         else f + 1)"

text \<open>
  A double has a significand of 53 bits. For a value below \<open>2 ^ 53\<close>: double it until it
  reaches \<open>2 ^ 52\<close>, round to an integer there, and halve as often. The exponent of a
  double does not go below that of the subnormal numbers, whose spacing is \<open>2 ^ -1074\<close>,
  so the doubling stops after 1074 steps (the count the first argument holds).
\<close>

fun scaleUp :: "nat \<Rightarrow> rat \<Rightarrow> rat" where
  "scaleUp 0 x = of_int (roundHalfEven x)"
| "scaleUp (Suc k) x =
     (if x < 2 ^ 52 then scaleUp k (2 * x) / 2 else of_int (roundHalfEven x))"

text \<open>
  For a value from \<open>2 ^ 53\<close> on: halve it until it is below \<open>2 ^ 53\<close>, round there, and
  double as often. After 971 halvings a value that is still not below \<open>2 ^ 53\<close> is
  beyond every double; it is handed back as it is.
\<close>

fun scaleDown :: "nat \<Rightarrow> rat \<Rightarrow> rat" where
  "scaleDown 0 x = x"
| "scaleDown (Suc k) x =
     (if x < 2 ^ 53 then of_int (roundHalfEven x) else 2 * scaleDown k (x / 2))"

text \<open>
  The double nearest to an exact value; a magnitude that rounds to \<open>2 ^ 1024\<close> or more
  overflows to an infinity.
\<close>

datatype double = Finite rat | PlusInfinity | MinusInfinity

definition toDouble :: "rat \<Rightarrow> double" where
  "toDouble x =
     (let a = \<bar>x\<bar>;
          r = (if a < 2 ^ 53 then scaleUp 1074 a else scaleDown 972 a)
      in if 2 ^ 1024 \<le> r then (if x < 0 then MinusInfinity else PlusInfinity)
         else Finite (if x < 0 then - r else r))"

text \<open>\<^verbatim>\<open>c * 255\<close> on a double \<open>c\<close>.\<close>

definition times255 :: "rat \<Rightarrow> double" where
  "times255 c = toDouble (c * 255)"

text \<open>
  \<^verbatim>\<open>Math.round\<close> on a finite double: the nearest integer, a tie going up. The result is an
  integer, hence exact.
\<close>

definition mathRound :: "rat \<Rightarrow> int" where
  "mathRound x = \<lfloor>x + 1 / 2\<rfloor>"

text \<open>\<^verbatim>\<open>n.toString(16)\<close> for an integer, and \<^verbatim>\<open>s.padStart(2, '0')\<close>.\<close>

definition hexDigit :: "nat \<Rightarrow> char" where
  "hexDigit d = ''0123456789abcdef'' ! d"

fun toHex :: "nat \<Rightarrow> string" where
  "toHex n = (if n < 16 then [hexDigit n] else toHex (n div 16) @ [hexDigit (n mod 16)])"

declare toHex.simps [simp del]

definition toString16 :: "int \<Rightarrow> string" where
  "toString16 n = (if n < 0 then ''-'' @ toHex (nat (- n)) else toHex (nat n))"

definition padStart2 :: "string \<Rightarrow> string" where
  "padStart2 s = replicate (2 - length s) (CHR ''0'') @ s"

text \<open>
  \<^verbatim>\<open>(colorDict[k] || 0)\<close> as a number, for a truthy \<^verbatim>\<open>colorDict\<close>: a falsy or missing
  component is 0, a number is itself, \<^verbatim>\<open>true\<close> is 1, anything else goes through the
  runtime's conversion.
\<close>

definition component :: "env \<Rightarrow> json \<Rightarrow> string \<Rightarrow> rat option" where
  "component e colorDict k =
     (if \<not> truthy (lookup colorDict k) then Some 0
      else (case lookup colorDict k of
              Some (JNum x) \<Rightarrow> Some x
            | Some (JBool b) \<Rightarrow> Some 1
            | Some v \<Rightarrow> toNumber e v
            | None \<Rightarrow> Some 0))"

text \<open>
  \<^verbatim>\<open>Math.round(c * 255).toString(16).padStart(2, '0')\<close>; \<^verbatim>\<open>NaN\<close> and the infinities stay
  what they are through all three steps.
\<close>

definition byteHex :: "rat option \<Rightarrow> string" where
  "byteHex c =
     (case c of
        None \<Rightarrow> ''NaN''
      | Some x \<Rightarrow>
          (case times255 x of
             Finite p \<Rightarrow> padStart2 (toString16 (mathRound p))
           | PlusInfinity \<Rightarrow> ''Infinity''
           | MinusInfinity \<Rightarrow> ''-Infinity''))"

text \<open>
  The closure \<^verbatim>\<open>getColor\<close>, written twice in the source (over \<^verbatim>\<open>plist\<close> and over
  \<^verbatim>\<open>profile\<close>) with the same body; \<open>obj\<close> is the object it reads, which is not \<^verbatim>\<open>null\<close>.
\<close>

definition getColor :: "env \<Rightarrow> json \<Rightarrow> string \<Rightarrow> string" where
  "getColor e obj key =
     (let colorDict = lookup obj key in
      if \<not> truthy colorDict then ''#000000''
      else ''#'' @ byteHex (component e (the colorDict) ''Red Component'')
               @ byteHex (component e (the colorDict) ''Green Component'')
               @ byteHex (component e (the colorDict) ''Blue Component''))"

text \<open>\<^verbatim>\<open>a || b\<close> on two strings.\<close>

definition orString :: "string \<Rightarrow> string \<Rightarrow> string" where
  "orString a b = (if a \<noteq> [] then a else b)"

text \<open>The \<^verbatim>\<open>colors\<close> literal both closures feed.\<close>

definition dictColors :: "env \<Rightarrow> json \<Rightarrow> ThemeColors" where
  "dictColors e obj =
     \<lparr> background = getColor e obj ''Background Color'',
       foreground = getColor e obj ''Foreground Color'',
       cursor = getColor e obj ''Cursor Color'',
       cursorText = orString (getColor e obj ''Cursor Text Color'') (getColor e obj ''Background Color''),
       selection = getColor e obj ''Selection Color'',
       selectionText = orString (getColor e obj ''Selected Text Color'') (getColor e obj ''Foreground Color''),
       ansi =
         \<lparr> black = getColor e obj ''Ansi 0 Color'',
           red = getColor e obj ''Ansi 1 Color'',
           green = getColor e obj ''Ansi 2 Color'',
           yellow = getColor e obj ''Ansi 3 Color'',
           blue = getColor e obj ''Ansi 4 Color'',
           magenta = getColor e obj ''Ansi 5 Color'',
           cyan = getColor e obj ''Ansi 6 Color'',
           white = getColor e obj ''Ansi 7 Color'',
           brightBlack = getColor e obj ''Ansi 8 Color'',
           brightRed = getColor e obj ''Ansi 9 Color'',
           brightGreen = getColor e obj ''Ansi 10 Color'',
           brightYellow = getColor e obj ''Ansi 11 Color'',
           brightBlue = getColor e obj ''Ansi 12 Color'',
           brightMagenta = getColor e obj ''Ansi 13 Color'',
           brightCyan = getColor e obj ''Ansi 14 Color'',
           brightWhite = getColor e obj ''Ansi 15 Color'' \<rparr> \<rparr>"

section \<open>The format parsers\<close>

text \<open>
  A parser's outcome: the theme files it asked the file system for, in order, and either
  the error it throws or the JavaScript object it returns.
\<close>

type_synonym parseResult = "string list \<times> (error + json)"

text \<open>
  \<^verbatim>\<open>parseItermColors\<close>. Every failure inside the \<^verbatim>\<open>try\<close> is caught and thrown again
  behind a fixed prefix. \<^verbatim>\<open>Object.keys(plist)\<close> and the first \<^verbatim>\<open>plist[key]\<close> raise a
  \<^verbatim>\<open>TypeError\<close> when the converted document is \<^verbatim>\<open>null\<close>.
\<close>

definition itermFailed :: "error \<Rightarrow> error" where
  "itermFailed e = Rethrown ''Failed to parse iTerm colors file: '' e"

definition parseItermColors :: "env \<Rightarrow> string \<Rightarrow> parseResult" where
  "parseItermColors e filePath =
     (if \<not> existsSync e filePath
        then ([], Inl (itermFailed (Error (''File not found: '' @ filePath))))
      else (case readFileSync e filePath of
        None \<Rightarrow> ([filePath], Inl (itermFailed SystemError))
      | Some fileContent \<Rightarrow>
          (case plutil e filePath of
             None \<Rightarrow> ([filePath], Inl (itermFailed (Rethrown
               ''Failed to parse plist file. The file may be corrupted or in an unsupported format. Error: ''
               SystemError)))
           | Some jsonContent \<Rightarrow>
               (case jsonParse e jsonContent of
                  None \<Rightarrow> ([filePath], Inl (itermFailed SyntaxError))
                | Some plist \<Rightarrow>
                    if plist = JNull then ([filePath], Inl (itermFailed TypeError))
                    else ([filePath], Inr (themeJson
                           \<lparr> name = basename filePath ''.itermcolors'',
                             colors = dictColors e plist \<rparr>))))))"

text \<open>\<^verbatim>\<open>parseTerminalApp\<close>: its argument is unused and its body is a single \<^verbatim>\<open>throw\<close>.\<close>

definition terminalAppMessage :: string where
  "terminalAppMessage =
     ''Terminal.app (.terminal) format uses NSKeyedArchiver which requires native parsing. '' @
     ''Please export your theme from iTerm2 as .itermcolors instead, or use a different format.''"

definition parseTerminalApp :: "string \<Rightarrow> parseResult" where
  "parseTerminalApp filePath = ([], Inl (Error terminalAppMessage))"

definition parseAlacritty :: "env \<Rightarrow> string \<Rightarrow> parseResult" where
  "parseAlacritty e filePath =
     (case readFileSync e filePath of
        None \<Rightarrow> ([filePath], Inl SystemError)
      | Some content \<Rightarrow>
          ([filePath], Inr (themeJson
             \<lparr> name = basename filePath (extname filePath),
               colors = alacrittyTheme (alacrittyColors content) \<rparr>)))"

definition parseKitty :: "env \<Rightarrow> string \<Rightarrow> parseResult" where
  "parseKitty e filePath =
     (case readFileSync e filePath of
        None \<Rightarrow> ([filePath], Inl SystemError)
      | Some content \<Rightarrow>
          ([filePath], Inr (themeJson
             \<lparr> name = basename filePath (extname filePath),
               colors = kittyTheme (kittyColors content) \<rparr>)))"

text \<open>\<^verbatim>\<open>v || name\<close> where \<^verbatim>\<open>v\<close> is a parsed value and \<^verbatim>\<open>name\<close> a string.\<close>

definition orName :: "json option \<Rightarrow> string \<Rightarrow> json" where
  "orName v n = (if truthy v then the v else JStr n)"

text \<open>
  \<^verbatim>\<open>parseJson\<close>. The native branch hands \<^verbatim>\<open>data.colors\<close> back as parsed; the profile
  branch decodes the first profile with the colour-dictionary closure. \<^verbatim>\<open>data.colors\<close>
  on \<^verbatim>\<open>null\<close> and \<^verbatim>\<open>profile[key]\<close> on \<^verbatim>\<open>null\<close> raise a \<^verbatim>\<open>TypeError\<close>.
\<close>

definition parseJson :: "env \<Rightarrow> string \<Rightarrow> parseResult" where
  "parseJson e filePath =
     (case readFileSync e filePath of
        None \<Rightarrow> ([filePath], Inl SystemError)
      | Some content \<Rightarrow>
          (case jsonParse e content of
             None \<Rightarrow> ([filePath], Inl SyntaxError)
           | Some data \<Rightarrow>
               if data = JNull then ([filePath], Inl TypeError)
               else if truthy (lookup data ''colors'') \<and>
                       truthy (lookup (the (lookup data ''colors'')) ''ansi'')
                 then ([filePath], Inr (JObj
                        [(''name'', orName (lookup data ''name'') (basename filePath ''.json'')),
                         (''colors'', the (lookup data ''colors''))]))
               else (case lookup data ''Profiles'' of
                       Some (JArr (profile # others)) \<Rightarrow>
                         if profile = JNull then ([filePath], Inl TypeError)
                         else ([filePath], Inr (JObj
                                [(''name'', orName (lookup profile ''Name'') (basename filePath ''.json'')),
                                 (''colors'', colorsJson (dictColors e profile))]))
                     | _ \<Rightarrow> ([filePath], Inl (Error ''Unrecognized JSON theme format'')))))"

section \<open>The format dispatcher\<close>

datatype parser = ItermParser | TerminalAppParser | AlacrittyParser | JsonParser | KittyParser

text \<open>The \<^verbatim>\<open>switch (ext)\<close> of \<^verbatim>\<open>parseThemeFile\<close>; \<open>None\<close> is its \<^verbatim>\<open>default\<close> branch.\<close>

definition parserFor :: "string \<Rightarrow> parser option" where
  "parserFor ext =
     (if ext = ''.itermcolors'' then Some ItermParser
      else if ext = ''.terminal'' then Some TerminalAppParser
      else if ext = ''.yaml'' \<or> ext = ''.yml'' then Some AlacrittyParser
      else if ext = ''.json'' then Some JsonParser
      else if ext = ''.conf'' then Some KittyParser
      else None)"

fun runParser :: "env \<Rightarrow> parser \<Rightarrow> string \<Rightarrow> parseResult" where
  "runParser e ItermParser filePath = parseItermColors e filePath"
| "runParser e TerminalAppParser filePath = parseTerminalApp filePath"
| "runParser e AlacrittyParser filePath = parseAlacritty e filePath"
| "runParser e JsonParser filePath = parseJson e filePath"
| "runParser e KittyParser filePath = parseKitty e filePath"

text \<open>
  What a call of \<^verbatim>\<open>parseThemeFile\<close> does: the parsers it entered (each \<^verbatim>\<open>case\<close> logs
  \<^verbatim>\<open>Using ... parser\<close> and calls that parser), the files read, and the result. The
  \<^verbatim>\<open>catch\<close> block logs the error and throws it again unchanged.
\<close>

record outcome =
  invoked :: "parser list"
  reads :: "string list"
  result :: "error + json"

definition parseThemeFile :: "env \<Rightarrow> string \<Rightarrow> outcome" where
  "parseThemeFile e filePath =
     (let ext = toLowerCase (extname filePath) in
      case parserFor ext of
        None \<Rightarrow> \<lparr> invoked = [], reads = [],
                  result = Inl (Error (''Unsupported file format: '' @ ext)) \<rparr>
      | Some k \<Rightarrow> \<lparr> invoked = [k], reads = fst (runParser e k filePath),
                    result = snd (runParser e k filePath) \<rparr>)"

section \<open>The export handler\<close>

text \<open>
  The \<^verbatim>\<open>FILES_EXPORT\<close> handler: \<open>filePath\<close> is its optional argument and \<open>dialogPath\<close>
  what the save dialog returns (\<open>None\<close> when cancelled or empty); the dialog is shown
  when the argument is missing or empty. The handler's last statement is an
  unconditional \<^verbatim>\<open>throw\<close>, under the comment that serialization is still to be
  implemented; nothing is written.
\<close>

definition exportTheme :: "string \<Rightarrow> string \<Rightarrow> string option \<Rightarrow> string option \<Rightarrow> error + string" where
  "exportTheme themeId format filePath dialogPath =
     (if filePath = None \<or> filePath = Some [] then
        (case dialogPath of
           None \<Rightarrow> Inl (Error ''Export cancelled'')
         | Some targetPath \<Rightarrow> Inl (Error ''Export not yet implemented. Coming soon!''))
      else Inl (Error ''Export not yet implemented. Coming soon!''))"

section \<open>The PowerShell profile installer\<close>

text \<open>What the command-line \<^verbatim>\<open>applyTo...\<close> functions return: \<^verbatim>\<open>{ success, message }\<close>.\<close>

datatype ApplyResult = ApplyResult (succeeded: bool) (message: string)

text \<open>
  The part of the file system \<^verbatim>\<open>applyToPowerShell\<close> touches: the profile directory, the
  profile script (\<open>None\<close> when there is no file), and whether \<^verbatim>\<open>mkdirSync\<close> and
  \<^verbatim>\<open>writeFileSync\<close> throw (the latter with the text of its error).
\<close>

record psDisk =
  psDirExists :: bool
  psMkdirFails :: bool
  psProfile :: "string option"
  psWriteError :: "string option"

text \<open>The template literal \<^verbatim>\<open>psColorScript\<close>, line by line.\<close>

definition psColorScript :: "ThemeColors \<Rightarrow> string \<Rightarrow> string" where
  "psColorScript c themeName =
     [CHR 0x0A] @ concat (map (\<lambda>l. l @ [CHR 0x0A])
       [''# ShellShade Theme: '' @ themeName,
        ''# Generated by ShellShade - Terminal Theme Manager'',
        [],
        ''$Host.UI.RawUI.BackgroundColor = [System.ConsoleColor]::Black'',
        ''$Host.UI.RawUI.ForegroundColor = [System.ConsoleColor]::White'',
        [],
        ''# PSReadLine colors (if available)'',
        ''if (Get-Module -ListAvailable -Name PSReadLine) {'',
        ''    Set-PSReadLineOption -Colors @'' @ ''{'',
        ''        Command            = '' @ [CHR 0x27] @ yellow (ansi c) @ [CHR 0x27],
        ''        Parameter          = '' @ [CHR 0x27] @ cyan (ansi c) @ [CHR 0x27],
        ''        String             = '' @ [CHR 0x27] @ green (ansi c) @ [CHR 0x27],
        ''        Comment            = '' @ [CHR 0x27] @ brightBlack (ansi c) @ [CHR 0x27],
        ''        Keyword            = '' @ [CHR 0x27] @ magenta (ansi c) @ [CHR 0x27],
        ''        Variable           = '' @ [CHR 0x27] @ blue (ansi c) @ [CHR 0x27],
        ''        Operator           = '' @ [CHR 0x27] @ foreground c @ [CHR 0x27],
        ''        Number             = '' @ [CHR 0x27] @ red (ansi c) @ [CHR 0x27],
        ''        Type               = '' @ [CHR 0x27] @ cyan (ansi c) @ [CHR 0x27],
        ''        Member             = '' @ [CHR 0x27] @ yellow (ansi c) @ [CHR 0x27],
        ''        Error              = '' @ [CHR 0x27] @ brightRed (ansi c) @ [CHR 0x27],
        ''        Selection          = '' @ [CHR 0x27] @ selection c @ [CHR 0x27],
        ''    }'',
        ''}'',
        [],
        ''# Set console colors via registry (requires restart)'',
        ''$regPath = '' @ [CHR 0x22] @ ''HKCU:'' @ [CHR 0x5C] @ ''Console'' @ [CHR 0x22],
        ''if (Test-Path $regPath) {'',
        ''    # Note: Console colors require hex values in specific format'',
        ''    Write-Host '' @ [CHR 0x22] @ ''Theme '' @ [CHR 0x27] @ themeName @ [CHR 0x27] @ '' applied to PSReadLine.'' @ [CHR 0x22] @ '' -ForegroundColor Green'',
        ''    Write-Host '' @ [CHR 0x22] @ ''For full color support, use Windows Terminal.'' @ [CHR 0x22] @ '' -ForegroundColor Yellow'',
        ''}''])"

text \<open>
  The pattern \<^verbatim>\<open>/\n?# ShellShade Theme:[\s\S]*?(?=\n# (?!ShellShade)|$)/g\<close>. Its lookahead
  holds at the end of the text (there is no \<^verbatim>\<open>m\<close> flag) and in front of a line break
  followed by \<^verbatim>\<open># \<close> and then anything but \<^verbatim>\<open>ShellShade\<close>.
\<close>

definition blockHeader :: string where
  "blockHeader = ''# ShellShade Theme:''"

definition blockEnds :: "string \<Rightarrow> bool" where
  "blockEnds s =
     (s = [] \<or> (startsWith s (CHR 0x0A # ''# '') \<and> \<not> startsWith (drop 3 s) ''ShellShade''))"

text \<open>The lazy \<^verbatim>\<open>[\s\S]*?\<close>: skip as few characters as reach a place where the lookahead holds.\<close>

fun skipBlock :: "string \<Rightarrow> string" where
  "skipBlock [] = []"
| "skipBlock (c # cs) = (if blockEnds (c # cs) then c # cs else skipBlock cs)"

text \<open>
  \<^verbatim>\<open>text.replace(shellshadeBlockRegex, '')\<close>: from left to right, a match is dropped and the
  scan goes on behind it; where no match starts, the character is kept. The optional
  line break is taken when the header follows it.
\<close>

function removeBlocks :: "string \<Rightarrow> string" where
  "removeBlocks [] = []"
| "removeBlocks (c # cs) =
     (if startsWith (c # cs) (CHR 0x0A # blockHeader)
        then removeBlocks (skipBlock (drop (length blockHeader) cs))
      else if startsWith (c # cs) blockHeader
        then removeBlocks (skipBlock (drop (length blockHeader - 1) cs))
      else c # removeBlocks cs)"
  by pat_completeness auto
termination
proof (relation "measure length")
  show "wf (measure length)" by simp
next
  fix c :: char and cs :: string
  have "length (skipBlock s) \<le> length s" for s
    by (induction s) auto
  then have "length (skipBlock (drop (length blockHeader) cs)) \<le> length (drop (length blockHeader) cs)" .
  then show "(skipBlock (drop (length blockHeader) cs), c # cs) \<in> measure length"
    by simp
next
  fix c :: char and cs :: string
  have "length (skipBlock s) \<le> length s" for s
    by (induction s) auto
  then have "length (skipBlock (drop (length blockHeader - 1) cs)) \<le> length (drop (length blockHeader - 1) cs)" .
  then show "(skipBlock (drop (length blockHeader - 1) cs), c # cs) \<in> measure length"
    by simp
next
  fix c :: char and cs :: string
  show "(cs, c # cs) \<in> measure length" by simp
qed

text \<open>
  \<^verbatim>\<open>applyToPowerShell\<close>. The directory is created outside the \<^verbatim>\<open>try\<close>, so a failure
  there escapes as an exception; inside, only the write can throw, and the \<^verbatim>\<open>catch\<close>
  turns it into \<^verbatim>\<open>success: false\<close>.
\<close>

definition applyToPowerShell ::
    "ThemeColors \<Rightarrow> string \<Rightarrow> psDisk \<Rightarrow> error + (ApplyResult \<times> psDisk)" where
  "applyToPowerShell c themeName d =
     (if \<not> psDirExists d \<and> psMkdirFails d then Inl SystemError
      else
        (let existingProfile = (case psProfile d of None \<Rightarrow> [] | Some t \<Rightarrow> t);
             stripped = removeBlocks existingProfile;
             newProfile = trim stripped @ [CHR 0x0A] @ psColorScript c themeName
         in case psWriteError d of
              Some err \<Rightarrow>
                Inr (ApplyResult False (''Failed to update PowerShell profile: '' @ err),
                     d\<lparr>psDirExists := True\<rparr>)
            | None \<Rightarrow>
                Inr (ApplyResult True
                       (''Theme applied to PowerShell profile!'' @ [CHR 0x0A] @
                        ''Restart PowerShell to see changes.'' @ [CHR 0x0A] @
                        ''For full 24-bit color, use Windows Terminal.''),
                     d\<lparr>psDirExists := True, psProfile := Some newProfile\<rparr>)))"

text \<open>The profile script left by applying a theme once, and twice in a row, to a disk.\<close>

definition profileAfter :: "ThemeColors \<Rightarrow> string \<Rightarrow> psDisk \<Rightarrow> string option" where
  "profileAfter c themeName d =
     (case applyToPowerShell c themeName d of
        Inl e \<Rightarrow> psProfile d
      | Inr (r, d') \<Rightarrow> psProfile d')"

definition profileAfterTwice :: "ThemeColors \<Rightarrow> string \<Rightarrow> psDisk \<Rightarrow> string option" where
  "profileAfterTwice c themeName d =
     (case applyToPowerShell c themeName d of
        Inl e \<Rightarrow> psProfile d
      | Inr (r, d') \<Rightarrow> profileAfter c themeName d')"

section \<open>The iTerm2 dynamic-profile installers\<close>

text \<open>
  \<^verbatim>\<open>parseInt(s, 16)\<close>: leading white space is skipped, then an optional sign, then an
  optional \<^verbatim>\<open>0x\<close>; the longest run of hexadecimal digits that follows is the number, and
  there is none (\<^verbatim>\<open>NaN\<close>) when that run is empty.
\<close>

definition hexDigitValue :: "char \<Rightarrow> nat" where
  "hexDigitValue c =
     (case map_of (zip ''0123456789abcdefABCDEF''
                       [0, 1, 2, 3, 4, 5, 6, 7, 8, 9, 10, 11, 12, 13, 14, 15, 10, 11, 12, 13, 14, 15]) c of
        Some v \<Rightarrow> v
      | None \<Rightarrow> 0)"

definition hexNumber :: "string \<Rightarrow> nat" where
  "hexNumber ds = foldl (\<lambda>acc d. 16 * acc + hexDigitValue d) 0 ds"

definition parseInt16 :: "string \<Rightarrow> int option" where
  "parseInt16 s =
     (let s1 = dropWhile isSpace s;
          s2 = (if startsWith s1 ''-'' \<or> startsWith s1 ''+'' then drop 1 s1 else s1);
          s3 = (if startsWith s2 ''0x'' \<or> startsWith s2 ''0X'' then drop 2 s2 else s2);
          digits = takeWhile isHexDigit s3
      in if digits = [] then None
         else if startsWith s1 ''-'' then Some (- int (hexNumber digits))
         else Some (int (hexNumber digits)))"

text \<open>
  \<^verbatim>\<open>parseInt(hex.slice(i, i + 2), 16) / 255\<close> as it appears in the written document: the
  quotient is a double, and \<^verbatim>\<open>JSON.stringify\<close> writes \<^verbatim>\<open>NaN\<close> (and an infinity) as
  \<^verbatim>\<open>null\<close>.
\<close>

definition channel :: "string \<Rightarrow> nat \<Rightarrow> json" where
  "channel hex i =
     (case parseInt16 (take 2 (drop i hex)) of
        None \<Rightarrow> JNull
      | Some n \<Rightarrow>
          (case toDouble (of_int n / 255) of
             Finite q \<Rightarrow> JNum q
           | _ \<Rightarrow> JNull))"

definition hexToItermColorDict :: "string \<Rightarrow> json" where
  "hexToItermColorDict hex =
     JObj [(''Red Component'', channel hex 1),
           (''Green Component'', channel hex 3),
           (''Blue Component'', channel hex 5),
           (''Alpha Component'', JNum 1),
           (''Color Space'', JStr ''sRGB'')]"

text \<open>The \<^verbatim>\<open>profile\<close> object both installers build.\<close>

definition itermProfile :: "ThemeColors \<Rightarrow> string \<Rightarrow> string \<Rightarrow> json" where
  "itermProfile c themeName themeId =
     JObj [(''Profiles'', JArr [JObj
       [(''Name'', JStr themeName),
        (''Guid'', JStr themeId),
        (''Background Color'', hexToItermColorDict (background c)),
        (''Foreground Color'', hexToItermColorDict (foreground c)),
        (''Cursor Color'', hexToItermColorDict (cursor c)),
        (''Cursor Text Color'', hexToItermColorDict (cursorText c)),
        (''Selection Color'', hexToItermColorDict (selection c)),
        (''Selected Text Color'', hexToItermColorDict (selectionText c)),
        (''Ansi 0 Color'', hexToItermColorDict (black (ansi c))),
        (''Ansi 1 Color'', hexToItermColorDict (red (ansi c))),
        (''Ansi 2 Color'', hexToItermColorDict (green (ansi c))),
        (''Ansi 3 Color'', hexToItermColorDict (yellow (ansi c))),
        (''Ansi 4 Color'', hexToItermColorDict (blue (ansi c))),
        (''Ansi 5 Color'', hexToItermColorDict (magenta (ansi c))),
        (''Ansi 6 Color'', hexToItermColorDict (cyan (ansi c))),
        (''Ansi 7 Color'', hexToItermColorDict (white (ansi c))),
        (''Ansi 8 Color'', hexToItermColorDict (brightBlack (ansi c))),
        (''Ansi 9 Color'', hexToItermColorDict (brightRed (ansi c))),
        (''Ansi 10 Color'', hexToItermColorDict (brightGreen (ansi c))),
        (''Ansi 11 Color'', hexToItermColorDict (brightYellow (ansi c))),
        (''Ansi 12 Color'', hexToItermColorDict (brightBlue (ansi c))),
        (''Ansi 13 Color'', hexToItermColorDict (brightMagenta (ansi c))),
        (''Ansi 14 Color'', hexToItermColorDict (brightCyan (ansi c))),
        (''Ansi 15 Color'', hexToItermColorDict (brightWhite (ansi c)))]])]"

text \<open>
  \<^verbatim>\<open>themeName.toLowerCase().replace(/[^a-z0-9]+/g, '-')\<close>: every maximal run of
  characters outside \<^verbatim>\<open>[a-z0-9]\<close> becomes one separator. The flag says whether the
  previous character was part of such a run.
\<close>

fun collapseRuns :: "bool \<Rightarrow> string \<Rightarrow> string" where
  "collapseRuns inRun [] = []"
| "collapseRuns inRun (c # cs) =
     (if c \<in> set ''abcdefghijklmnopqrstuvwxyz0123456789'' then c # collapseRuns False cs
      else if inRun then collapseRuns True cs
      else CHR ''-'' # collapseRuns True cs)"

definition slugName :: "string \<Rightarrow> string" where
  "slugName themeName = collapseRuns False (toLowerCase themeName)"

text \<open>
  \<^verbatim>\<open>path.join(dir, file)\<close> for a normalized directory and a relative path without dot
  segments; an empty directory segment is ignored. The separator is that of POSIX (on
  Windows the same paths are spelled with backslashes).
\<close>

definition pathJoin :: "string \<Rightarrow> string \<Rightarrow> string" where
  "pathJoin dir file = (if dir = [] then file else dir @ ''/'' @ file)"

text \<open>The AppleScript template and the shell command that runs it (each \<^verbatim>\<open>'\<close> escaped).\<close>

definition appleScript :: "string \<Rightarrow> string" where
  "appleScript themeName =
     [CHR 0x0A] @
     ''      tell application '' @ [CHR 0x22] @ ''iTerm'' @ [CHR 0x22] @ [CHR 0x0A] @
     ''        repeat with w in windows'' @ [CHR 0x0A] @
     ''          repeat with t in tabs of w'' @ [CHR 0x0A] @
     ''            repeat with s in sessions of t'' @ [CHR 0x0A] @
     ''              tell s to set profile to '' @ [CHR 0x22] @ themeName @ [CHR 0x22] @ [CHR 0x0A] @
     ''            end repeat'' @ [CHR 0x0A] @
     ''          end repeat'' @ [CHR 0x0A] @
     ''        end repeat'' @ [CHR 0x0A] @
     ''      end tell'' @ [CHR 0x0A] @
     ''    ''"

definition osascriptCommand :: "string \<Rightarrow> string" where
  "osascriptCommand script =
     ''osascript -e '' @ [CHR 0x27] @
     concat (map (\<lambda>c. if c = CHR 0x27 then [CHR 0x27, CHR 0x22, CHR 0x27, CHR 0x22, CHR 0x27] else [c])
               script) @
     [CHR 0x27]"

text \<open>
  The machine the installers run on: the home directory, which directories exist and
  whether \<^verbatim>\<open>mkdirSync\<close> fails on one, the documents written so far (a path holds the
  value whose \<^verbatim>\<open>JSON.stringify\<close> text was written), whether \<^verbatim>\<open>writeFileSync\<close> throws on a
  path (with the text of its error), and whether a shell command fails.
\<close>

record machine =
  home :: string
  dirExists :: "string \<Rightarrow> bool"
  mkdirFails :: "string \<Rightarrow> bool"
  written :: "string \<rightharpoonup> json"
  writeError :: "string \<Rightarrow> string option"
  commandFails :: "string \<Rightarrow> bool"

text \<open>The interface \<^verbatim>\<open>InstallResult\<close>; an optional field that is absent is \<open>None\<close>.\<close>

record InstallResult =
  success :: bool
  path :: string
  instructions :: "string option"
  error :: "string option"

text \<open>
  \<^verbatim>\<open>getThemeName\<close>: the \<^verbatim>\<open>themes\<close> table as rows \<^verbatim>\<open>(id, name)\<close> with \<^verbatim>\<open>id\<close> the primary
  key; \<^verbatim>\<open>theme?.name || 'Untitled'\<close>.
\<close>

definition getThemeName :: "(string \<times> string) list \<Rightarrow> string \<Rightarrow> string" where
  "getThemeName themes themeId = orElse (map_of themes themeId) ''Untitled''"

definition dynamicProfilesDir :: "machine \<Rightarrow> string" where
  "dynamicProfilesDir m = pathJoin (home m) ''Library/Application Support/iTerm2/DynamicProfiles''"

text \<open>
  \<^verbatim>\<open>installToIterm2\<close> of the desktop application. The lookup's \<^verbatim>\<open>null\<close> returns before
  anything is touched; \<^verbatim>\<open>mkdirSync\<close> is outside the \<^verbatim>\<open>try\<close>, so its failure escapes
  as an exception; inside the outer \<^verbatim>\<open>try\<close> only the write can throw, and the inner
  \<^verbatim>\<open>try\<close> catches the failure of the script.
\<close>

definition installToIterm2 ::
    "(string \<times> string) list \<Rightarrow> color_row list \<Rightarrow> string \<Rightarrow> machine \<Rightarrow>
     error + (InstallResult \<times> machine)" where
  "installToIterm2 themes db themeId m =
     (case getThemeColors db themeId of
        None \<Rightarrow>
          Inr (\<lparr> success = False, path = [], instructions = None, error = Some ''Theme not found'' \<rparr>, m)
      | Some c \<Rightarrow>
          (let themeName = getThemeName themes themeId;
               dir = dynamicProfilesDir m
           in if \<not> dirExists m dir \<and> mkdirFails m dir then Inl SystemError
              else
                (let m1 = m\<lparr>dirExists := (dirExists m)(dir := True)\<rparr>;
                     profilePath = pathJoin dir (slugName themeName @ ''.json'')
                 in case writeError m1 profilePath of
                      Some err \<Rightarrow>
                        Inr (\<lparr> success = False, path = profilePath, instructions = None,
                               error = Some (''Failed to write profile: '' @ err) \<rparr>, m1)
                    | None \<Rightarrow>
                        (let m2 = m1\<lparr>written := (written m1)(profilePath \<mapsto> itermProfile c themeName themeId)\<rparr>
                         in if commandFails m2 (osascriptCommand (appleScript themeName))
                            then Inr (\<lparr> success = True, path = profilePath,
                                        instructions = Some (''Theme '' @ [CHR 0x22] @ themeName @ [CHR 0x22] @
                                          '' installed. Open iTerm2 and select it from Profiles menu, or restart iTerm2.''),
                                        error = None \<rparr>, m2)
                            else Inr (\<lparr> success = True, path = profilePath,
                                        instructions = Some (''Theme '' @ [CHR 0x22] @ themeName @ [CHR 0x22] @
                                          '' applied to iTerm2!''),
                                        error = None \<rparr>, m2)))))"

text \<open>
  \<^verbatim>\<open>applyToIterm2\<close> of the command line: the colours are passed in by the caller, which
  has already answered \<^verbatim>\<open>Theme not found\<close> for a \<^verbatim>\<open>null\<close> lookup.
\<close>

definition applyToIterm2 ::
    "ThemeColors \<Rightarrow> string \<Rightarrow> string \<Rightarrow> machine \<Rightarrow> error + (ApplyResult \<times> machine)" where
  "applyToIterm2 c themeName themeId m =
     (let dir = dynamicProfilesDir m
      in if \<not> dirExists m dir \<and> mkdirFails m dir then Inl SystemError
         else
           (let m1 = m\<lparr>dirExists := (dirExists m)(dir := True)\<rparr>;
                profilePath = pathJoin dir (''shellshade-'' @ slugName themeName @ ''.json'')
            in case writeError m1 profilePath of
                 Some err \<Rightarrow> Inr (ApplyResult False ''Failed to install profile.'', m1)
               | None \<Rightarrow>
                   (let m2 = m1\<lparr>written := (written m1)(profilePath \<mapsto> itermProfile c themeName themeId)\<rparr>
                    in if commandFails m2 (osascriptCommand (appleScript themeName))
                       then Inr (ApplyResult True
                                   ''Profile installed. Select from Profiles menu or restart iTerm2.'', m2)
                       else Inr (ApplyResult True ''Theme applied to all sessions!'', m2))))"

section \<open>The Windows Terminal settings installer\<close>

text \<open>The \<^verbatim>\<open>colorScheme\<close> object: the two magenta slots go under the \<^verbatim>\<open>purple\<close> keys.\<close>

definition colorScheme :: "ThemeColors \<Rightarrow> string \<Rightarrow> json" where
  "colorScheme c themeName =
     JObj [(''name'', JStr themeName),
           (''background'', JStr (background c)),
           (''foreground'', JStr (foreground c)),
           (''cursorColor'', JStr (cursor c)),
           (''selectionBackground'', JStr (selection c)),
           (''black'', JStr (black (ansi c))),
           (''red'', JStr (red (ansi c))),
           (''green'', JStr (green (ansi c))),
           (''yellow'', JStr (yellow (ansi c))),
           (''blue'', JStr (blue (ansi c))),
           (''purple'', JStr (magenta (ansi c))),
           (''cyan'', JStr (cyan (ansi c))),
           (''white'', JStr (white (ansi c))),
           (''brightBlack'', JStr (brightBlack (ansi c))),
           (''brightRed'', JStr (brightRed (ansi c))),
           (''brightGreen'', JStr (brightGreen (ansi c))),
           (''brightYellow'', JStr (brightYellow (ansi c))),
           (''brightBlue'', JStr (brightBlue (ansi c))),
           (''brightPurple'', JStr (brightMagenta (ansi c))),
           (''brightCyan'', JStr (brightCyan (ansi c))),
           (''brightWhite'', JStr (brightWhite (ansi c)))]"

text \<open>The initial value of \<^verbatim>\<open>settings\<close>.\<close>

definition defaultSettings :: json where
  "defaultSettings =
     JObj [(''schemes'', JArr []), (''profiles'', JObj [(''defaults'', JObj [])])]"

text \<open>\<^verbatim>\<open>obj[k] = v\<close> on an object: an existing property keeps its place, a new one goes last.\<close>

fun setProp :: "(string \<times> json) list \<Rightarrow> string \<Rightarrow> json \<Rightarrow> (string \<times> json) list" where
  "setProp [] k v = [(k, v)]"
| "setProp ((k', v') # kvs) k v = (if k' = k then (k, v) # kvs else (k', v') # setProp kvs k v)"

text \<open>
  \<^verbatim>\<open>schemes.filter((s) => s.name !== themeName)\<close>: reading \<^verbatim>\<open>name\<close> off a \<^verbatim>\<open>null\<close> element
  raises a \<^verbatim>\<open>TypeError\<close>; any other element without that very name is kept.
\<close>

fun filterSchemes :: "string \<Rightarrow> json list \<Rightarrow> error + json list" where
  "filterSchemes themeName [] = Inr []"
| "filterSchemes themeName (s # ss) =
     (if s = JNull then Inl TypeError
      else (case filterSchemes themeName ss of
              Inl e \<Rightarrow> Inl e
            | Inr kept \<Rightarrow>
                if lookup s ''name'' \<noteq> Some (JStr themeName) then Inr (s # kept) else Inr kept))"

text \<open>
  The statements between parsing and writing, on the parsed value. The code is module
  code, hence strict: assigning a property on a number, string or boolean raises a
  \<^verbatim>\<open>TypeError\<close>, as does reading one off \<^verbatim>\<open>null\<close> and calling \<^verbatim>\<open>filter\<close> on a value that
  is not an array.

  First the block under \<^verbatim>\<open>// Remove existing scheme with same name\<close>, on the properties
  of a \<^verbatim>\<open>settings\<close> object: a falsy \<^verbatim>\<open>schemes\<close> becomes \<^verbatim>\<open>[]\<close>, then the filtered array
  with the new scheme pushed is stored.
\<close>

definition replaceScheme ::
    "(string \<times> json) list \<Rightarrow> string \<Rightarrow> json \<Rightarrow> error + (string \<times> json) list" where
  "replaceScheme kvs themeName scheme =
     (case (if truthy (map_of kvs ''schemes'') then the (map_of kvs ''schemes'') else JArr []) of
        JArr ss \<Rightarrow>
          (case filterSchemes themeName ss of
             Inl e \<Rightarrow> Inl e
           | Inr kept \<Rightarrow> Inr (setProp kvs ''schemes'' (JArr (kept @ [scheme]))))
      | _ \<Rightarrow> Inl TypeError)"

text \<open>
  Then the block under \<^verbatim>\<open>// Set as default color scheme\<close>. An array in the place of
  \<^verbatim>\<open>profiles\<close> or of \<^verbatim>\<open>defaults\<close> accepts the assignment, but \<^verbatim>\<open>JSON.stringify\<close> writes an
  array's elements only, so the written value is unchanged there.
\<close>

definition setDefaultScheme ::
    "(string \<times> json) list \<Rightarrow> string \<Rightarrow> error + (string \<times> json) list" where
  "setDefaultScheme kvs themeName =
     (case (if truthy (map_of kvs ''profiles'') then the (map_of kvs ''profiles'') else JObj []) of
        JObj ps \<Rightarrow>
          (case (if truthy (map_of ps ''defaults'') then the (map_of ps ''defaults'') else JObj []) of
             JObj ds \<Rightarrow>
               Inr (setProp kvs ''profiles''
                      (JObj (setProp ps ''defaults''
                         (JObj (setProp ds ''colorScheme'' (JStr themeName))))))
           | JArr ds \<Rightarrow> Inr kvs
           | _ \<Rightarrow> Inl TypeError)
      | JArr ps \<Rightarrow> Inr kvs
      | _ \<Rightarrow> Inl TypeError)"

text \<open>
  Both blocks on whatever \<^verbatim>\<open>JSON.parse\<close> returned; the result is the value that
  \<^verbatim>\<open>JSON.stringify\<close> then writes. A top-level array goes through both blocks without an
  error and is written back with its elements only.
\<close>

definition mergeScheme :: "json \<Rightarrow> string \<Rightarrow> json \<Rightarrow> error + json" where
  "mergeScheme settings themeName scheme =
     (case settings of
        JArr xs \<Rightarrow> Inr (JArr xs)
      | JObj kvs \<Rightarrow>
          (case replaceScheme kvs themeName scheme of
             Inl e \<Rightarrow> Inl e
           | Inr kvs1 \<Rightarrow>
               (case setDefaultScheme kvs1 themeName of
                  Inl e \<Rightarrow> Inl e
                | Inr kvs2 \<Rightarrow> Inr (JObj kvs2)))
      | _ \<Rightarrow> Inl TypeError)"

text \<open>
  A settings file, seen through the two ways its text is read: the JSON value the text
  denotes (\<open>None\<close> when it is not JSON), and what \<^verbatim>\<open>JSON.parse\<close> returns after the two
  comment-stripping \<^verbatim>\<open>replace\<close> passes (\<open>None\<close> when it throws).
\<close>

record wtFile =
  document :: "json option"
  parsed :: "json option"

text \<open>
  The machine: \<^verbatim>\<open>LOCALAPPDATA\<close>, the preview directory, the settings files, whether a
  write throws, the text the runtime gives an error, and \<open>reread\<close>: what the comment
  stripper and \<^verbatim>\<open>JSON.parse\<close> make of the text \<^verbatim>\<open>JSON.stringify(v, null, 4)\<close>.
\<close>

record wtMachine =
  localAppData :: string
  previewDirExists :: bool
  previewMkdirFails :: bool
  settingsFiles :: "string \<rightharpoonup> wtFile"
  settingsWriteError :: "string \<Rightarrow> string option"
  errorText :: "error \<Rightarrow> string"
  reread :: "json \<Rightarrow> json option"

definition packagedSettings :: "wtMachine \<Rightarrow> string" where
  "packagedSettings m =
     pathJoin (localAppData m) ''Packages/Microsoft.WindowsTerminal_8wekyb3d8bbwe/LocalState/settings.json''"

definition previewSettings :: "wtMachine \<Rightarrow> string" where
  "previewSettings m = pathJoin (localAppData m) ''Microsoft/Windows Terminal/settings.json''"

text \<open>\<^verbatim>\<open>wtPaths.find(p => fs.existsSync(p))\<close>, falling back to the preview location.\<close>

definition settingsPath :: "wtMachine \<Rightarrow> string" where
  "settingsPath m =
     (if settingsFiles m (packagedSettings m) \<noteq> None then packagedSettings m
      else previewSettings m)"

text \<open>
  The value of \<^verbatim>\<open>settings\<close> once the file has been read: the initial value when there is
  no file or when \<^verbatim>\<open>JSON.parse\<close> throws, the parsed value otherwise.
\<close>

definition readSettings :: "wtMachine \<Rightarrow> json" where
  "readSettings m =
     (case settingsFiles m (settingsPath m) of
        None \<Rightarrow> defaultSettings
      | Some f \<Rightarrow> (case parsed f of None \<Rightarrow> defaultSettings | Some v \<Rightarrow> v))"

text \<open>
  \<^verbatim>\<open>applyToWindowsTerminal\<close>. Creating the preview directory happens outside the \<^verbatim>\<open>try\<close>;
  every failure inside it is caught and reported, and leaves the file as it was.
\<close>

definition applyToWindowsTerminal ::
    "ThemeColors \<Rightarrow> string \<Rightarrow> wtMachine \<Rightarrow> error + (ApplyResult \<times> wtMachine)" where
  "applyToWindowsTerminal c themeName m =
     (if settingsFiles m (settingsPath m) = None \<and> \<not> previewDirExists m \<and> previewMkdirFails m
        then Inl SystemError
      else
        (let m1 = (if settingsFiles m (settingsPath m) = None then m\<lparr>previewDirExists := True\<rparr> else m)
         in case mergeScheme (readSettings m) themeName (colorScheme c themeName) of
              Inl e \<Rightarrow>
                Inr (ApplyResult False
                       (''Failed to update Windows Terminal settings: '' @ errorText m e), m1)
            | Inr v \<Rightarrow>
                (case settingsWriteError m (settingsPath m) of
                   Some err \<Rightarrow>
                     Inr (ApplyResult False
                            (''Failed to update Windows Terminal settings: '' @ err), m1)
                 | None \<Rightarrow>
                     Inr (ApplyResult True
                            (''Theme added to Windows Terminal and set as default!'' @ [CHR 0x0A] @
                             ''Restart Windows Terminal to see changes.''),
                          m1\<lparr>settingsFiles := (settingsFiles m1)(settingsPath m \<mapsto>
                                \<lparr>document = Some v, parsed = reread m v\<rparr>)\<rparr>))))"

text \<open>The state of the machine after an install; an escaping exception leaves it as it was.\<close>

definition afterInstall :: "ThemeColors \<Rightarrow> string \<Rightarrow> wtMachine \<Rightarrow> wtMachine" where
  "afterInstall c themeName m =
     (case applyToWindowsTerminal c themeName m of Inl e \<Rightarrow> m | Inr (r, m') \<Rightarrow> m')"

text \<open>The entries of a document's \<^verbatim>\<open>schemes\<close> array that carry a given name.\<close>

definition schemesNamed :: "string \<Rightarrow> json \<Rightarrow> json list" where
  "schemesNamed themeName v =
     (case lookup v ''schemes'' of
        Some (JArr ss) \<Rightarrow> filter (\<lambda>s. lookup s ''name'' = Some (JStr themeName)) ss
      | _ \<Rightarrow> [])"

text \<open>
  A settings document as Windows Terminal keeps it: an object whose \<^verbatim>\<open>schemes\<close>, when
  set, is an array without \<^verbatim>\<open>null\<close> entries, whose \<^verbatim>\<open>profiles\<close>, when set, is an object
  or an array, and whose \<^verbatim>\<open>profiles.defaults\<close>, when set, is an object or an array.
\<close>

definition schemesOk :: "(string \<times> json) list \<Rightarrow> bool" where
  "schemesOk kvs =
     (\<not> truthy (map_of kvs ''schemes'') \<or>
      (case map_of kvs ''schemes'' of
         Some (JArr ss) \<Rightarrow> JNull \<notin> set ss
       | _ \<Rightarrow> False))"

definition defaultsOk :: "(string \<times> json) list \<Rightarrow> bool" where
  "defaultsOk ps =
     (\<not> truthy (map_of ps ''defaults'') \<or>
      (case map_of ps ''defaults'' of
         Some (JObj ds) \<Rightarrow> True
       | Some (JArr ds) \<Rightarrow> True
       | _ \<Rightarrow> False))"

definition profilesOk :: "(string \<times> json) list \<Rightarrow> bool" where
  "profilesOk kvs =
     (\<not> truthy (map_of kvs ''profiles'') \<or>
      (case map_of kvs ''profiles'' of
         Some (JObj ps) \<Rightarrow> defaultsOk ps
       | Some (JArr ps) \<Rightarrow> True
       | _ \<Rightarrow> False))"

definition wtDocument :: "json \<Rightarrow> bool" where
  "wtDocument v = (case v of JObj kvs \<Rightarrow> schemesOk kvs \<and> profilesOk kvs | _ \<Rightarrow> False)"

text \<open>The starting states the installer is meant for: no file, unparseable text, or a settings document.\<close>

definition wtStart :: "wtMachine \<Rightarrow> bool" where
  "wtStart m =
     (case settingsFiles m (settingsPath m) of
        None \<Rightarrow> True
      | Some f \<Rightarrow> (case parsed f of None \<Rightarrow> True | Some v \<Rightarrow> wtDocument v))"

section \<open>Example inputs\<close>

text \<open>An environment with no file in it, where every external call fails.\<close>

definition noFiles :: env where
  "noFiles =
     \<lparr> existsSync = (\<lambda>p. False), readFileSync = (\<lambda>p. None), plutil = (\<lambda>p. None),
       jsonParse = (\<lambda>t. None), toNumber = (\<lambda>v. None) \<rparr>"

text \<open>A conf file of two lines: a background and ANSI colour 1.\<close>

definition minimalConf :: string where
  "minimalConf = ''background #1a1b26'' @ [CHR 0x0A] @ ''color1 #f7768e''"

text \<open>The case labels of the dispatcher's \<^verbatim>\<open>switch\<close>.\<close>

definition recognizedExtensions :: "string list" where
  "recognizedExtensions = [''.itermcolors'', ''.terminal'', ''.yaml'', ''.yml'', ''.json'', ''.conf'']"

text \<open>A byte as two lower-case hexadecimal digits, and a colour string \<^verbatim>\<open>#rrggbb\<close>.\<close>

definition twoDigits :: "int \<Rightarrow> string" where
  "twoDigits n = [hexDigit (nat n div 16), hexDigit (nat n mod 16)]"

definition isHexColor :: "string \<Rightarrow> bool" where
  "isHexColor s =
     (length s = 7 \<and> take 1 s = ''#'' \<and> list_all (\<lambda>c. c \<in> set ''0123456789abcdef'') (drop 1 s))"

text \<open>
  A colour archive with one entry, whose red component is 1.2 (the double nearest to it).
\<close>

definition overdrivenRed :: json where
  "overdrivenRed =
     JObj [(''Background Color'',
            JObj [(''Red Component'', JNum (5404319552844595 / 4503599627370496)),
                  (''Green Component'', JNum 0),
                  (''Blue Component'', JNum 0)])]"

text \<open>
  A colour archive with one entry: red 0.00980392156862745, green 0.5 and blue 0.2, each
  the double nearest to it. The exact product of that red component and 255 lies just
  below 2.5; the double product is 2.5.
\<close>

definition tieRed :: json where
  "tieRed =
     JObj [(''Cursor Color'',
            JObj [(''Red Component'', JNum (1412894000743685 / 144115188075855872)),
                  (''Green Component'', JNum (1 / 2)),
                  (''Blue Component'', JNum (3602879701896397 / 18014398509481984))])]"

text \<open>A colour archive with a white background, a white foreground and no other entry.\<close>

definition whiteOnWhite :: json where
  "whiteOnWhite =
     JObj [(''Background Color'',
            JObj [(''Red Component'', JNum 1), (''Green Component'', JNum 1),
                  (''Blue Component'', JNum 1)]),
           (''Foreground Color'',
            JObj [(''Red Component'', JNum 1), (''Green Component'', JNum 1),
                  (''Blue Component'', JNum 1)])]"

text \<open>
  An environment with a single file at path \<open>p\<close>, whose text \<^verbatim>\<open>JSON.parse\<close> reads as the
  value \<open>v\<close>.
\<close>

definition jsonFile :: "string \<Rightarrow> json \<Rightarrow> env" where
  "jsonFile p v =
     noFiles \<lparr> existsSync := (\<lambda>q. q = p),
               readFileSync := [p \<mapsto> ''(the text of the document)''],
               jsonParse := [''(the text of the document)'' \<mapsto> v] \<rparr>"

text \<open>A theme with the built-in default colours and an empty name.\<close>

definition unnamedTheme :: ParsedTheme where
  "unnamedTheme = \<lparr> name = [], colors = colorsFromMap Map.empty \<rparr>"

text \<open>A machine with no PowerShell profile yet, where nothing fails.\<close>

definition freshDisk :: psDisk where
  "freshDisk = \<lparr> psDirExists = False, psMkdirFails = False, psProfile = None, psWriteError = None \<rparr>"

text \<open>A Mac where the profiles directory exists, every write succeeds and no script runs.\<close>

definition noScripting :: machine where
  "noScripting =
     \<lparr> home = ''/Users/ada'', dirExists = (\<lambda>d. True), mkdirFails = (\<lambda>d. False),
       written = Map.empty, writeError = (\<lambda>p. None), commandFails = (\<lambda>cmd. True) \<rparr>"

text \<open>
  A Windows machine without a settings file, where nothing fails and a written document
  is read back as it is.
\<close>

definition freshWindows :: wtMachine where
  "freshWindows =
     \<lparr> localAppData = ''C:/Users/ada/AppData/Local'', previewDirExists = False,
       previewMkdirFails = False, settingsFiles = Map.empty,
       settingsWriteError = (\<lambda>p. None), errorText = (\<lambda>e. ''TypeError''), reread = Some \<rparr>"

text \<open>
  The same machine once Windows Terminal has written its settings: two schemes, one of
  them already called Tokyo Night, and a list of profiles.
\<close>

definition usedWindows :: wtMachine where
  "usedWindows =
     freshWindows \<lparr> settingsFiles :=
       [previewSettings freshWindows \<mapsto>
          \<lparr> document = Some (JObj
               [(''schemes'', JArr [JObj [(''name'', JStr ''Tokyo Night''), (''purple'', JStr ''#bb9af7'')],
                                  JObj [(''name'', JStr ''Campbell'')]]),
                (''profiles'', JObj [(''list'', JArr [])])]),
            parsed = Some (JObj
               [(''schemes'', JArr [JObj [(''name'', JStr ''Tokyo Night''), (''purple'', JStr ''#bb9af7'')],
                                  JObj [(''name'', JStr ''Campbell'')]]),
                (''profiles'', JObj [(''list'', JArr [])])]) \<rparr>] \<rparr>"

section \<open>Properties of the store lookup\<close>

lemma orElse_nonempty: "d \<noteq> [] \<Longrightarrow> orElse v d \<noteq> []"
  by (simp add: orElse_def split: option.splits)

lemma slots_colorsFromMap:
  "slots (colorsFromMap m) = map (\<lambda>(k, d). orElse (m k) d) slotDefaults"
  by (simp add: slots_def colorsFromMap_def slotDefaults_def)

lemma populated_colorsFromMap: "populated (colorsFromMap m)"
  by (simp add: populated_def slots_def colorsFromMap_def orElse_nonempty)

lemma getFullThemeColors_eq: "getFullThemeColors db themeId = getThemeColors db themeId"
  by (simp add: getFullThemeColors_def getThemeColors_def)

lemma installToIterm2_not_found:
  "(\<exists>r m'. installToIterm2 themes db themeId m = Inr (r, m') \<and> error r = Some ''Theme not found'')
     \<longleftrightarrow> getThemeColors db themeId = None"
  by (auto simp: installToIterm2_def Let_def split: option.splits if_splits)

text \<open>
  Claim C10. The colour lookup the installers use returns \<^verbatim>\<open>null\<close> exactly when the store
  holds no colour row for the theme id, and that is exactly when the installer answers
  \<^verbatim>\<open>Theme not found\<close>. When at least one row exists the lookup returns a theme whose 22
  slots are all non-empty: each slot is the stored value of its key when that value is
  present and non-empty, and the fixed default of \<open>slotDefaults\<close> otherwise; no missing
  slot is an error. The command-line lookup is the same function.
\<close>

theorem getThemeColors_null_iff_no_rows:
  "(getThemeColors db themeId = None \<longleftrightarrow> selectColors db themeId = []) \<and>
   (selectColors db themeId \<noteq> [] \<longrightarrow>
      (\<exists>c. getThemeColors db themeId = Some c \<and> populated c \<and>
           slots c = map (\<lambda>(k, d). orElse (mapGet (selectColors db themeId) k) d) slotDefaults)) \<and>
   getFullThemeColors db themeId = getThemeColors db themeId \<and>
   ((\<exists>r m'. installToIterm2 themes db themeId m = Inr (r, m') \<and> error r = Some ''Theme not found'')
      \<longleftrightarrow> selectColors db themeId = [])"
proof -
  have null: "getThemeColors db themeId = None \<longleftrightarrow> selectColors db themeId = []"
    by (simp add: getThemeColors_def Let_def)
  have filled: "selectColors db themeId \<noteq> [] \<longrightarrow>
      (\<exists>c. getThemeColors db themeId = Some c \<and> populated c \<and>
           slots c = map (\<lambda>(k, d). orElse (mapGet (selectColors db themeId) k) d) slotDefaults)"
    by (simp add: getThemeColors_def populated_colorsFromMap slots_colorsFromMap Let_def)
  from null filled getFullThemeColors_eq [of db themeId]
    installToIterm2_not_found [of themes db themeId m]
  show ?thesis by simp
qed

theorem getThemeColors_null_iff_no_rows_witness:
  "selectColors [(''t1'', ''ansi_red'', ''#f7768e''), (''t2'', ''background'', ''#101010'')] ''t1'' \<noteq> [] \<and>
   (\<exists>c. getThemeColors [(''t1'', ''ansi_red'', ''#f7768e''), (''t2'', ''background'', ''#101010'')] ''t1'' = Some c \<and>
        populated c \<and> red (ansi c) = ''#f7768e'' \<and> background c = ''#000000'') \<and>
   getThemeColors [(''t1'', ''ansi_red'', ''#f7768e''), (''t2'', ''background'', ''#101010'')] ''t3'' = None"
proof -
  let ?db = "[(''t1'', ''ansi_red'', ''#f7768e''), (''t2'', ''background'', ''#101010'')]"
  have rows: "selectColors ?db ''t1'' \<noteq> []"
    by (simp add: selectColors_def)
  from getThemeColors_null_iff_no_rows [of ?db "''t1''"] rows
  obtain c where c: "getThemeColors ?db ''t1'' = Some c" "populated c"
    by blast
  have v: "getThemeColors ?db ''t1'' = Some (colorsFromMap (mapGet [(''ansi_red'', ''#f7768e'')]))"
    by (simp add: getThemeColors_def selectColors_def)
  have r: "red (ansi c) = ''#f7768e''" "background c = ''#000000''"
    using c(1) v by (auto simp: colorsFromMap_def mapGet_def orElse_def)
  have n: "getThemeColors ?db ''t3'' = None"
    by (simp add: getThemeColors_def selectColors_def)
  show ?thesis using rows c r n by blast
qed

section \<open>Properties of the config parsers\<close>

lemma getColorOr_nonempty: "fb \<noteq> [] \<Longrightarrow> getColorOr m k fb \<noteq> []"
  by (simp add: getColorOr_def orElse_def split: option.splits)

lemma populated_kittyTheme: "populated (kittyTheme m)"
  by (simp add: populated_def slots_def kittyTheme_def getColorOr_nonempty)

lemma populated_alacrittyTheme: "populated (alacrittyTheme m)"
  by (simp add: populated_def slots_def alacrittyTheme_def getColorOr_nonempty)

lemma minimalConf_lines: "splitLines minimalConf = [''background #1a1b26'', ''color1 #f7768e'']"
  by (simp add: minimalConf_def)

lemma kittyLine_background:
  "kittyLine ''background #1a1b26'' m = m(''background'' \<mapsto> ''#1a1b26'')"
  by (simp add: kittyLine_def trim_def isSpace_def startsWith_def kittyMatch_def isWord_def
      hex6_def isHexDigit_def toLowerCase_def toLowerChar_def)

lemma kittyLine_color1:
  "kittyLine ''color1 #f7768e'' m = m(''color1'' \<mapsto> ''#f7768e'')"
  by (simp add: kittyLine_def trim_def isSpace_def startsWith_def kittyMatch_def isWord_def
      hex6_def isHexDigit_def toLowerCase_def toLowerChar_def)

lemma minimalConf_colors:
  "kittyColors minimalConf = [''background'' \<mapsto> ''#1a1b26'', ''color1'' \<mapsto> ''#f7768e'']"
  by (simp add: kittyColors_def minimalConf_lines kittyLine_background kittyLine_color1)

text \<open>
  Claim C7. For every readable input file, the Kitty and the Alacritty parser return a
  theme whose 22 slots are all non-empty: each slot is a colour found in the file or a
  hard-coded fallback. For the conf file holding only \<^verbatim>\<open>background #1a1b26\<close> and
  \<^verbatim>\<open>color1 #f7768e\<close>, the foreground is the fallback \<^verbatim>\<open>#c5c8c6\<close>, ANSI red is
  \<^verbatim>\<open>#f7768e\<close> and ANSI black is the fallback \<^verbatim>\<open>#1d1f21\<close>.
\<close>

theorem config_parsers_populate_all_slots:
  "(readFileSync e p = Some content \<longrightarrow>
      parseKitty e p = ([p], Inr (themeJson
        \<lparr>name = basename p (extname p), colors = kittyTheme (kittyColors content)\<rparr>)) \<and>
      populated (kittyTheme (kittyColors content)) \<and>
      parseAlacritty e p = ([p], Inr (themeJson
        \<lparr>name = basename p (extname p), colors = alacrittyTheme (alacrittyColors content)\<rparr>)) \<and>
      populated (alacrittyTheme (alacrittyColors content))) \<and>
   foreground (kittyTheme (kittyColors minimalConf)) = ''#c5c8c6'' \<and>
   red (ansi (kittyTheme (kittyColors minimalConf))) = ''#f7768e'' \<and>
   black (ansi (kittyTheme (kittyColors minimalConf))) = ''#1d1f21''"
proof -
  have general: "readFileSync e p = Some content \<longrightarrow>
      parseKitty e p = ([p], Inr (themeJson
        \<lparr>name = basename p (extname p), colors = kittyTheme (kittyColors content)\<rparr>)) \<and>
      populated (kittyTheme (kittyColors content)) \<and>
      parseAlacritty e p = ([p], Inr (themeJson
        \<lparr>name = basename p (extname p), colors = alacrittyTheme (alacrittyColors content)\<rparr>)) \<and>
      populated (alacrittyTheme (alacrittyColors content))"
    by (simp add: parseKitty_def parseAlacritty_def populated_kittyTheme populated_alacrittyTheme)
  have scenario: "foreground (kittyTheme (kittyColors minimalConf)) = ''#c5c8c6'' \<and>
      red (ansi (kittyTheme (kittyColors minimalConf))) = ''#f7768e'' \<and>
      black (ansi (kittyTheme (kittyColors minimalConf))) = ''#1d1f21''"
    by (simp add: minimalConf_colors kittyTheme_def getColorOr_def orElse_def)
  from general scenario show ?thesis by blast
qed

theorem config_parsers_populate_all_slots_witness:
  "readFileSync (noFiles\<lparr>readFileSync := [''/themes/tokyo.conf'' \<mapsto> minimalConf]\<rparr>) ''/themes/tokyo.conf''
     = Some minimalConf \<and>
   parseKitty (noFiles\<lparr>readFileSync := [''/themes/tokyo.conf'' \<mapsto> minimalConf]\<rparr>) ''/themes/tokyo.conf''
     = ([''/themes/tokyo.conf''], Inr (themeJson
         \<lparr>name = ''tokyo'', colors = kittyTheme (kittyColors minimalConf)\<rparr>)) \<and>
   populated (kittyTheme (kittyColors minimalConf)) \<and>
   populated (alacrittyTheme (alacrittyColors minimalConf))"
proof -
  let ?e = "noFiles\<lparr>readFileSync := [''/themes/tokyo.conf'' \<mapsto> minimalConf]\<rparr>"
  let ?p = "''/themes/tokyo.conf''"
  have r: "readFileSync ?e ?p = Some minimalConf"
    by simp
  have n: "basename ?p (extname ?p) = ''tokyo''"
    by (simp add: basename_def extname_def lastComponent_def endsWith_def)
  from config_parsers_populate_all_slots [of ?e ?p minimalConf] r n show ?thesis
    by simp
qed

section \<open>Properties of the dispatcher\<close>

text \<open>
  Claim C8. For every path whose extension is \<^verbatim>\<open>.terminal\<close> (in any letter case) the
  dispatcher enters the Terminal.app parser only, which fails with the unsupported-format
  error. The outcome is the same in every environment, so it does not depend on the
  file's contents; no file is read; and the message names the alternative, exporting
  the theme as \<^verbatim>\<open>.itermcolors\<close>.
\<close>

theorem terminal_extension_always_unsupported:
  assumes "toLowerCase (extname p) = ''.terminal''"
  shows "parseThemeFile e p =
           \<lparr> invoked = [TerminalAppParser], reads = [], result = Inl (Error terminalAppMessage) \<rparr> \<and>
         parseThemeFile e' p = parseThemeFile e p \<and>
         (\<exists>before after. terminalAppMessage =
            before @ ''Please export your theme from iTerm2 as .itermcolors instead'' @ after)"
proof -
  have run: "\<And>x. parseThemeFile x p =
      \<lparr> invoked = [TerminalAppParser], reads = [], result = Inl (Error terminalAppMessage) \<rparr>"
    using assms by (simp add: parseThemeFile_def parserFor_def parseTerminalApp_def)
  have msg: "terminalAppMessage =
      ''Terminal.app (.terminal) format uses NSKeyedArchiver which requires native parsing. '' @
      ''Please export your theme from iTerm2 as .itermcolors instead'' @
      '', or use a different format.''"
    by (simp add: terminalAppMessage_def)
  from run msg show ?thesis by metis
qed

theorem terminal_extension_always_unsupported_witness:
  "toLowerCase (extname ''/themes/Basic.TERMINAL'') = ''.terminal'' \<and>
   parseThemeFile (noFiles\<lparr>readFileSync := [''/themes/Basic.TERMINAL'' \<mapsto> ''background #1a1b26'']\<rparr>)
       ''/themes/Basic.TERMINAL'' =
     \<lparr> invoked = [TerminalAppParser], reads = [], result = Inl (Error terminalAppMessage) \<rparr>"
proof -
  have ext: "toLowerCase (extname ''/themes/Basic.TERMINAL'') = ''.terminal''"
    by (simp add: extname_def lastComponent_def toLowerCase_def toLowerChar_def)
  from terminal_extension_always_unsupported [OF ext] ext show ?thesis
    by blast
qed

lemma parserFor_None: "parserFor ext = None \<longleftrightarrow> ext \<notin> set recognizedExtensions"
  by (simp add: parserFor_def recognizedExtensions_def)

text \<open>
  Claim C9. When the lower-cased extension of the path is not one of the recognized
  extensions, the dispatcher fails with the unsupported-file-format error, entering no
  parser and reading no file. When it is one of them, in whatever letter case the path
  spells it, the dispatcher enters exactly one parser, the one the \<^verbatim>\<open>switch\<close> selects,
  and its outcome is that parser's.
\<close>

theorem dispatch_by_lowercased_extension:
  "(toLowerCase (extname p) \<notin> set recognizedExtensions \<longrightarrow>
      parseThemeFile e p =
        \<lparr> invoked = [], reads = [],
          result = Inl (Error (''Unsupported file format: '' @ toLowerCase (extname p))) \<rparr>) \<and>
   (toLowerCase (extname p) \<in> set recognizedExtensions \<longrightarrow>
      (\<exists>k. parserFor (toLowerCase (extname p)) = Some k \<and>
           parseThemeFile e p =
             \<lparr> invoked = [k], reads = fst (runParser e k p), result = snd (runParser e k p) \<rparr>))"
proof (cases "parserFor (toLowerCase (extname p))")
  case None
  then show ?thesis
    by (simp add: parseThemeFile_def parserFor_None [symmetric])
next
  case (Some k)
  then have "toLowerCase (extname p) \<in> set recognizedExtensions"
    using parserFor_None [of "toLowerCase (extname p)"] by simp
  with Some show ?thesis
    by (simp add: parseThemeFile_def)
qed

theorem dispatch_by_lowercased_extension_witness:
  "toLowerCase (extname ''/themes/notes.TXT'') \<notin> set recognizedExtensions \<and>
   parseThemeFile noFiles ''/themes/notes.TXT'' =
     \<lparr> invoked = [], reads = [], result = Inl (Error ''Unsupported file format: .txt'') \<rparr> \<and>
   toLowerCase (extname ''/themes/Nord.Conf'') \<in> set recognizedExtensions \<and>
   invoked (parseThemeFile noFiles ''/themes/Nord.Conf'') = [KittyParser]"
proof -
  have e1: "toLowerCase (extname ''/themes/notes.TXT'') = ''.txt''"
    by (simp add: extname_def lastComponent_def toLowerCase_def toLowerChar_def)
  have e2: "toLowerCase (extname ''/themes/Nord.Conf'') = ''.conf''"
    by (simp add: extname_def lastComponent_def toLowerCase_def toLowerChar_def)
  have n1: "toLowerCase (extname ''/themes/notes.TXT'') \<notin> set recognizedExtensions"
    by (simp add: e1 recognizedExtensions_def)
  have n2: "toLowerCase (extname ''/themes/Nord.Conf'') \<in> set recognizedExtensions"
    by (simp add: e2 recognizedExtensions_def)
  have k: "parserFor ''.conf'' = Some KittyParser"
    by (simp add: parserFor_def)
  from dispatch_by_lowercased_extension [of "''/themes/notes.TXT''" noFiles] n1 e1
  have a: "parseThemeFile noFiles ''/themes/notes.TXT'' =
     \<lparr> invoked = [], reads = [], result = Inl (Error ''Unsupported file format: .txt'') \<rparr>"
    by simp
  from dispatch_by_lowercased_extension [of "''/themes/Nord.Conf''" noFiles] n2 e2 k
  have b: "invoked (parseThemeFile noFiles ''/themes/Nord.Conf'') = [KittyParser]"
    by auto
  from n1 a n2 b show ?thesis by blast
qed

section \<open>Properties of the colour-dictionary decoder\<close>

lemma floor_rat_numeral: "\<lfloor>numeral a / numeral b :: rat\<rfloor> = numeral a div numeral b"
  by (metis floor_divide_of_int_eq of_int_numeral)

lemma floor_rat_one: "\<lfloor>1 / numeral b :: rat\<rfloor> = 1 div numeral b"
  by (metis floor_divide_of_int_eq of_int_1 of_int_numeral)

lemma mathRound_of_int: "mathRound (of_int n) = n"
  unfolding mathRound_def by (rule floor_unique) simp_all

lemma mathRound_numeral: "mathRound (numeral k) = numeral k"
  using mathRound_of_int [of "numeral k"] by simp

lemma mathRound_0: "mathRound 0 = 0"
  using mathRound_of_int [of 0] by simp

lemma below_16:
  "(d::nat) < 16 \<Longrightarrow> d = 0 \<or> d = 1 \<or> d = 2 \<or> d = 3 \<or> d = 4 \<or> d = 5 \<or> d = 6 \<or> d = 7 \<or>
     d = 8 \<or> d = 9 \<or> d = 10 \<or> d = 11 \<or> d = 12 \<or> d = 13 \<or> d = 14 \<or> d = 15"
  by arith

lemma hexDigit_lower: "d < 16 \<Longrightarrow> hexDigit d \<in> set ''0123456789abcdef''"
  using below_16 [of d] by (auto simp: hexDigit_def)

lemma toHex_byte:
  "n < 256 \<Longrightarrow> toHex n = (if n < 16 then [hexDigit n] else [hexDigit (n div 16), hexDigit (n mod 16)])"
proof -
  assume n: "n < 256"
  show ?thesis
  proof (cases "n < 16")
    case True
    then show ?thesis by (simp add: toHex.simps)
  next
    case False
    with n have "n div 16 < 16" by simp
    then have "toHex (n div 16) = [hexDigit (n div 16)]"
      by (simp add: toHex.simps)
    with False show ?thesis
      by (simp add: toHex.simps [of n])
  qed
qed

lemma byte_twoDigits:
  assumes "0 \<le> n" "n \<le> 255"
  shows "padStart2 (toString16 n) = twoDigits n"
proof -
  from assms have lt: "nat n < 256" by simp
  show ?thesis
  proof (cases "nat n < 16")
    case True
    then have "nat n div 16 = 0" by simp
    moreover have "hexDigit 0 = CHR ''0''" by (simp add: hexDigit_def)
    ultimately show ?thesis
      using assms True lt
      by (simp add: padStart2_def toString16_def toHex_byte twoDigits_def)
  next
    case False
    then show ?thesis
      using assms lt
      by (simp add: padStart2_def toString16_def toHex_byte twoDigits_def)
  qed
qed

lemma twoDigits_lower:
  assumes "0 \<le> n" "n \<le> 255"
  shows "list_all (\<lambda>c. c \<in> set ''0123456789abcdef'') (twoDigits n)"
proof -
  from assms have "nat n div 16 < 16" by simp
  moreover have "nat n mod 16 < 16" by simp
  ultimately show ?thesis
    unfolding twoDigits_def using hexDigit_lower by simp
qed

lemma mathRound_byte:
  assumes "0 \<le> p" "p \<le> 255"
  shows "0 \<le> mathRound p \<and> mathRound p \<le> 255"
proof -
  have "0 \<le> p + 1 / 2" using assms by simp
  then have lo: "0 \<le> \<lfloor>p + 1 / 2\<rfloor>" by simp
  have "p + 1 / 2 < 256" using assms by simp
  then have "\<lfloor>p + 1 / 2\<rfloor> < 256"
    by (simp add: floor_less_iff)
  with lo show ?thesis by (simp add: mathRound_def)
qed

text \<open>
  Rounding to the nearest integer: a value closer to \<open>n\<close> than to any other integer goes
  to \<open>n\<close>, an integer stays, and the result keeps the bounds \<open>0\<close> and \<open>N\<close> of the value.
\<close>

lemma roundHalfEven_near:
  assumes "of_int n - 1 / 2 < q" "q < of_int n + 1 / 2"
  shows "roundHalfEven q = n"
proof (cases "of_int n \<le> q")
  case True
  with assms have "\<lfloor>q\<rfloor> = n" by (intro floor_unique) simp_all
  with assms show ?thesis by (simp add: roundHalfEven_def Let_def)
next
  case False
  with assms have "\<lfloor>q\<rfloor> = n - 1" by (intro floor_unique) simp_all
  with assms False show ?thesis by (simp add: roundHalfEven_def Let_def)
qed

lemma roundHalfEven_of_int: "roundHalfEven (of_int n) = n"
  by (rule roundHalfEven_near) simp_all

lemma roundHalfEven_nonneg: "0 \<le> q \<Longrightarrow> 0 \<le> roundHalfEven q"
  by (simp add: roundHalfEven_def Let_def)

lemma roundHalfEven_le:
  assumes "q \<le> of_int N"
  shows "roundHalfEven q \<le> N"
proof (cases "q = of_int N")
  case True
  then show ?thesis by (simp add: roundHalfEven_of_int)
next
  case False
  with assms have "q < of_int N" by simp
  then have "\<lfloor>q\<rfloor> < N" by (simp add: floor_less_iff)
  then show ?thesis by (simp add: roundHalfEven_def Let_def)
qed

lemma scaleUp_nonneg: "0 \<le> x \<Longrightarrow> 0 \<le> scaleUp k x"
  by (induction k arbitrary: x) (simp_all add: roundHalfEven_nonneg)

lemma scaleUp_le: "x \<le> of_int N \<Longrightarrow> scaleUp k x \<le> of_int N"
proof (induction k arbitrary: x N)
  case 0
  then show ?case by (simp add: roundHalfEven_le)
next
  case (Suc k)
  show ?case
  proof (cases "x < 2 ^ 52")
    case True
    from Suc.prems have "2 * x \<le> of_int (2 * N)" by simp
    then have "scaleUp k (2 * x) \<le> of_int (2 * N)" by (rule Suc.IH)
    with True show ?thesis by simp
  next
    case False
    with Suc.prems show ?thesis by (simp add: roundHalfEven_le)
  qed
qed

lemma scaleUp_normal:
  "2 ^ 52 \<le> x * 2 ^ j \<Longrightarrow> x * 2 ^ j < 2 ^ 53 \<Longrightarrow> j \<le> k \<Longrightarrow>
     scaleUp k x = of_int (roundHalfEven (x * 2 ^ j)) / 2 ^ j"
proof (induction j arbitrary: k x)
  case 0
  then show ?case by (cases k) simp_all
next
  case (Suc j)
  from Suc.prems obtain k' where k: "k = Suc k'" "j \<le> k'" by (cases k) simp_all
  have "(1::rat) \<le> 2 ^ j" by simp
  have "(0::rat) < 2 ^ 52" by simp
  from this Suc.prems(1) have "0 < x * 2 ^ Suc j" by (rule less_le_trans)
  then have "0 \<le> x * 2" by (simp add: zero_less_mult_iff)
  with \<open>1 \<le> 2 ^ j\<close> have "x * 2 * 1 \<le> x * 2 * 2 ^ j" by (rule mult_left_mono)
  then have "x * 2 \<le> x * 2 ^ Suc j" by (simp add: mult.assoc)
  with Suc.prems(2) have lt: "x < 2 ^ 52" by simp
  have "scaleUp k' (2 * x) = of_int (roundHalfEven (2 * x * 2 ^ j)) / 2 ^ j"
    using Suc.prems k by (intro Suc.IH) (simp_all add: mult.assoc)
  with lt k show ?case by (simp add: mult.assoc mult.left_commute)
qed

lemma times255_unit:
  assumes "0 \<le> c" "c \<le> 1"
  shows "\<exists>p. times255 c = Finite p \<and> 0 \<le> p \<and> p \<le> 255"
proof -
  have lo: "0 \<le> c * 255" using assms by simp
  have "c * 255 \<le> of_int 255" using assms by simp
  then have hi: "scaleUp 1074 (c * 255) \<le> of_int 255" by (rule scaleUp_le)
  have nn: "0 \<le> scaleUp 1074 (c * 255)" using lo by (rule scaleUp_nonneg)
  have small: "c * 255 < 2 ^ 53" using assms by simp
  have "(255::rat) < 2 ^ 1024" by simp
  with hi have fin: "\<not> 2 ^ 1024 \<le> scaleUp 1074 (c * 255)" by simp
  have "times255 c = Finite (scaleUp 1074 (c * 255))"
    unfolding times255_def toDouble_def Let_def using lo small fin assms by simp
  with nn hi show ?thesis by simp
qed

lemma times255_normal:
  assumes "0 \<le> c" and "2 ^ 52 \<le> c * 255 * 2 ^ j" and "c * 255 * 2 ^ j < 2 ^ 53" and "j \<le> 1074"
    and "of_int n - 1 / 2 < c * 255 * 2 ^ j" and "c * 255 * 2 ^ j < of_int n + 1 / 2"
  shows "times255 c = Finite (of_int n / 2 ^ j)"
proof -
  have r: "roundHalfEven (c * 255 * 2 ^ j) = n" using assms(5,6) by (rule roundHalfEven_near)
  have s: "scaleUp 1074 (c * 255) = of_int n / 2 ^ j"
    using scaleUp_normal [OF assms(2,3,4)] r by simp
  have "(1::rat) \<le> 2 ^ j" by simp
  moreover have "0 \<le> c * 255" using assms(1) by simp
  ultimately have "c * 255 * 1 \<le> c * 255 * 2 ^ j" by (rule mult_left_mono)
  with assms(3) have small: "c * 255 < 2 ^ 53" by simp
  then have "c * 255 \<le> of_int (2 ^ 53)" by simp
  then have "scaleUp 1074 (c * 255) \<le> of_int (2 ^ 53)" by (rule scaleUp_le)
  moreover have "(of_int (2 ^ 53) :: rat) < 2 ^ 1024" by simp
  ultimately have fin: "\<not> 2 ^ 1024 \<le> scaleUp 1074 (c * 255)" by simp
  have "times255 c = Finite (scaleUp 1074 (c * 255))"
    unfolding times255_def toDouble_def Let_def using assms(1) small fin by simp
  with s show ?thesis by simp
qed

lemma times255_0: "times255 0 = Finite 0"
  using times255_unit [of 0] scaleUp_le [of 0 0 1074] scaleUp_nonneg [of 0 1074]
  by (auto simp: times255_def toDouble_def Let_def)

lemma times255_1: "times255 1 = Finite 255"
  using times255_normal [of 1 45 "255 * 2 ^ 45"] by simp

lemma times255_half: "times255 (1 / 2) = Finite (255 / 2)"
  using times255_normal [of "1 / 2" 46 "255 * 2 ^ 45"] by simp

lemma times255_tie:
  "times255 (1412894000743685 / 144115188075855872) = Finite (5 / 2)"
  using times255_normal [of "1412894000743685 / 144115188075855872" 51 5629499534213120] by simp

lemma times255_fifth:
  "times255 (3602879701896397 / 18014398509481984) = Finite 51"
  using times255_normal [of "3602879701896397 / 18014398509481984" 47 "51 * 2 ^ 47"] by simp

lemma times255_overdriven:
  "times255 (5404319552844595 / 4503599627370496) = Finite 306"
  using times255_normal [of "5404319552844595 / 4503599627370496" 44 "306 * 2 ^ 44"] by simp
text \<open>
  The product in double arithmetic is not the exact product rounded by \<^verbatim>\<open>Math.round\<close>: for
  the double \<open>0.00980392156862745\<close> the exact product with 255 lies below 2.5 and would
  round to 2, and the double product is 2.5, which rounds to 3.
\<close>

lemma exact_product_rounds_down:
  "mathRound (1412894000743685 / 144115188075855872 * 255) = 2"
  by (simp add: mathRound_def floor_rat_numeral)

lemma double_product_rounds_up:
  "times255 (1412894000743685 / 144115188075855872) = Finite (5 / 2) \<and> mathRound (5 / 2) = 3"
  by (simp add: times255_tie mathRound_def floor_rat_numeral)

lemma byteHex_unit:
  assumes "0 \<le> c" "c \<le> 1"
  shows "\<exists>p. times255 c = Finite p \<and> byteHex (Some c) = twoDigits (mathRound p) \<and>
           0 \<le> mathRound p \<and> mathRound p \<le> 255"
proof -
  from times255_unit [OF assms] obtain p where p: "times255 c = Finite p" "0 \<le> p" "p \<le> 255"
    by blast
  from mathRound_byte [OF p(2,3)] have m: "0 \<le> mathRound p" "mathRound p \<le> 255"
    by simp_all
  from p(1) m have "byteHex (Some c) = twoDigits (mathRound p)"
    by (simp add: byteHex_def byte_twoDigits)
  with p(1) m show ?thesis by blast
qed

lemma byteHex_one: "byteHex (Some 1) = ''ff''"
proof -
  have "toHex 255 = ''ff''"
    by (simp add: toHex.simps hexDigit_def)
  then show ?thesis
    by (simp add: byteHex_def times255_1 mathRound_numeral toString16_def padStart2_def)
qed

text \<open>
  Claim C1, as amended. For every colour entry whose three components (a missing one
  counts as 0) lie in \<open>[0, 1]\<close>, the decoder turns each component \<open>c\<close> into a byte: the
  product \<open>c * 255\<close>, taken in double arithmetic, is finite, and \<^verbatim>\<open>Math.round\<close> of it lies in
  \<open>[0, 255]\<close>. Each byte is rendered as exactly two lower-case hexadecimal digits, and so
  the decoder returns a valid \<^verbatim>\<open>#rrggbb\<close> string. The source has no clamping step: the
  bound on the byte comes from the bound on the component.
\<close>

theorem components_in_unit_interval:
  assumes "truthy (lookup obj key)"
    and "component e (the (lookup obj key)) ''Red Component'' = Some r" and "0 \<le> r" and "r \<le> 1"
    and "component e (the (lookup obj key)) ''Green Component'' = Some g" and "0 \<le> g" and "g \<le> 1"
    and "component e (the (lookup obj key)) ''Blue Component'' = Some b" and "0 \<le> b" and "b \<le> 1"
  shows "\<exists>pr pg pb.
           times255 r = Finite pr \<and> times255 g = Finite pg \<and> times255 b = Finite pb \<and>
           getColor e obj key =
             ''#'' @ twoDigits (mathRound pr) @ twoDigits (mathRound pg)
                   @ twoDigits (mathRound pb) \<and>
           mathRound pr \<in> {0..255} \<and> mathRound pg \<in> {0..255} \<and> mathRound pb \<in> {0..255} \<and>
           isHexColor (getColor e obj key)"
proof -
  from byteHex_unit [OF assms(3,4)] obtain pr where
    pr: "times255 r = Finite pr" "byteHex (Some r) = twoDigits (mathRound pr)"
      "0 \<le> mathRound pr" "mathRound pr \<le> 255"
    by blast
  from byteHex_unit [OF assms(6,7)] obtain pg where
    pg: "times255 g = Finite pg" "byteHex (Some g) = twoDigits (mathRound pg)"
      "0 \<le> mathRound pg" "mathRound pg \<le> 255"
    by blast
  from byteHex_unit [OF assms(9,10)] obtain pb where
    pb: "times255 b = Finite pb" "byteHex (Some b) = twoDigits (mathRound pb)"
      "0 \<le> mathRound pb" "mathRound pb \<le> 255"
    by blast
  have col: "getColor e obj key =
      ''#'' @ twoDigits (mathRound pr) @ twoDigits (mathRound pg) @ twoDigits (mathRound pb)"
    using assms(1,2,5,8) pr(2) pg(2) pb(2) by (simp add: getColor_def)
  have rng: "mathRound pr \<in> {0..255}" "mathRound pg \<in> {0..255}" "mathRound pb \<in> {0..255}"
    using pr(3,4) pg(3,4) pb(3,4) by simp_all
  have "isHexColor (''#'' @ twoDigits (mathRound pr) @ twoDigits (mathRound pg)
            @ twoDigits (mathRound pb))"
    using twoDigits_lower [OF pr(3,4)] twoDigits_lower [OF pg(3,4)] twoDigits_lower [OF pb(3,4)]
    by (simp add: isHexColor_def twoDigits_def)
  with col have hex: "isHexColor (getColor e obj key)" by simp
  from pr(1) pg(1) pb(1) col rng hex show ?thesis by blast
qed

theorem components_in_unit_interval_witness:
  "truthy (lookup tieRed ''Cursor Color'') \<and>
   component noFiles (the (lookup tieRed ''Cursor Color'')) ''Red Component'' =
     Some (1412894000743685 / 144115188075855872) \<and>
   times255 (1412894000743685 / 144115188075855872) = Finite (5 / 2) \<and>
   getColor noFiles tieRed ''Cursor Color'' = ''#038033'' \<and>
   isHexColor (getColor noFiles tieRed ''Cursor Color'')"
proof -
  have t: "truthy (lookup tieRed ''Cursor Color'')" by (simp add: tieRed_def)
  have r: "component noFiles (the (lookup tieRed ''Cursor Color'')) ''Red Component'' =
      Some (1412894000743685 / 144115188075855872)"
    by (simp add: tieRed_def component_def)
  have g: "component noFiles (the (lookup tieRed ''Cursor Color'')) ''Green Component'' =
      Some (1 / 2)"
    by (simp add: tieRed_def component_def)
  have b: "component noFiles (the (lookup tieRed ''Cursor Color'')) ''Blue Component'' =
      Some (3602879701896397 / 18014398509481984)"
    by (simp add: tieRed_def component_def)
  have m: "mathRound (5 / 2) = 3" "mathRound (255 / 2) = 128" "mathRound 51 = 51"
    by (simp_all add: mathRound_def floor_rat_numeral)
  from components_in_unit_interval [OF t r _ _ g _ _ b]
  obtain pr pg pb where
    p: "times255 (1412894000743685 / 144115188075855872) = Finite pr"
      "times255 (1 / 2) = Finite pg"
      "times255 (3602879701896397 / 18014398509481984) = Finite pb"
    and col: "getColor noFiles tieRed ''Cursor Color'' =
      ''#'' @ twoDigits (mathRound pr) @ twoDigits (mathRound pg) @ twoDigits (mathRound pb)"
    and hex: "isHexColor (getColor noFiles tieRed ''Cursor Color'')"
    by auto
  from p have "pr = 5 / 2" "pg = 255 / 2" "pb = 51"
    by (simp_all add: times255_tie times255_half times255_fifth)
  with col have "getColor noFiles tieRed ''Cursor Color'' = ''#038033''"
    by (simp add: m twoDigits_def hexDigit_def)
  with t r hex show ?thesis by (simp add: times255_tie)
qed

text \<open>
  Claim C1 as stated fails: a red component of 1.2 is rounded to 306 and rendered as the
  three digits \<^verbatim>\<open>132\<close>, so the entry decodes to the eight-character string
  \<^verbatim>\<open>#1320000\<close>, not to \<^verbatim>\<open>#ff0000\<close>.
\<close>

theorem overdriven_component_not_clamped:
  "getColor noFiles overdrivenRed ''Background Color'' = ''#1320000'' \<and>
   getColor noFiles overdrivenRed ''Background Color'' \<noteq> ''#ff0000'' \<and>
   \<not> isHexColor (getColor noFiles overdrivenRed ''Background Color'')"
proof -
  have m: "mathRound 306 = 306" "mathRound 0 = 0"
    by (simp_all add: mathRound_numeral mathRound_0)
  have h: "toHex 306 = ''132''"
    by (simp add: toHex.simps hexDigit_def)
  have h0: "toHex 0 = ''0''"
    by (simp add: toHex.simps hexDigit_def)
  have "getColor noFiles overdrivenRed ''Background Color'' = ''#1320000''"
    by (simp add: getColor_def overdrivenRed_def component_def byteHex_def times255_overdriven
        times255_0 m toString16_def h h0 padStart2_def)
  then show ?thesis by (simp add: isHexColor_def)
qed

text \<open>
  Claim C2 fails on the code: for an archive with a white background, a white foreground
  and neither a \<^verbatim>\<open>Cursor Text Color\<close> nor a \<^verbatim>\<open>Selected Text Color\<close> entry, the parsed
  cursor-text and selection-text are \<^verbatim>\<open>#000000\<close>, not the parsed background and
  foreground \<^verbatim>\<open>#ffffff\<close>. The closure returns the non-empty string \<^verbatim>\<open>#000000\<close> for a
  missing entry, so the right operand of \<^verbatim>\<open>||\<close> is never taken.
\<close>

theorem cursor_text_fallback_unreachable:
  "background (dictColors e whiteOnWhite) = ''#ffffff'' \<and>
   cursorText (dictColors e whiteOnWhite) = ''#000000'' \<and>
   foreground (dictColors e whiteOnWhite) = ''#ffffff'' \<and>
   selectionText (dictColors e whiteOnWhite) = ''#000000''"
proof -
  have bg: "getColor e whiteOnWhite ''Background Color'' = ''#ffffff''"
    by (simp add: getColor_def whiteOnWhite_def component_def byteHex_one)
  have fg: "getColor e whiteOnWhite ''Foreground Color'' = ''#ffffff''"
    by (simp add: getColor_def whiteOnWhite_def component_def byteHex_one)
  have ct: "getColor e whiteOnWhite ''Cursor Text Color'' = ''#000000''"
    by (simp add: getColor_def whiteOnWhite_def)
  have st: "getColor e whiteOnWhite ''Selected Text Color'' = ''#000000''"
    by (simp add: getColor_def whiteOnWhite_def)
  show ?thesis
    by (simp add: dictColors_def bg fg ct st orString_def)
qed

section \<open>Properties of the JSON parser\<close>

lemma ansiJson_inject: "ansiJson a = ansiJson b \<Longrightarrow> a = b"
  by (cases a, cases b) (simp add: ansiJson_def)

lemma colorsJson_inject: "colorsJson a = colorsJson b \<Longrightarrow> a = b"
  by (cases a, cases b) (auto simp: colorsJson_def dest: ansiJson_inject)

lemma themeJson_inject: "themeJson a = themeJson b \<Longrightarrow> a = b"
  by (cases a, cases b) (auto simp: themeJson_def dest: colorsJson_inject)

lemma exportTheme_fails: "\<exists>m. exportTheme themeId format filePath dialogPath = Inl (Error m)"
  by (simp add: exportTheme_def split: option.splits)

lemma parseJson_native:
  assumes "readFileSync e p = Some content" and "jsonParse e content = Some (themeJson t)"
    and "name t \<noteq> []"
  shows "parseJson e p = ([p], Inr (themeJson t))"
  using assms by (simp add: parseJson_def themeJson_def colorsJson_def ansiJson_def orName_def)

text \<open>
  Claim C4, as amended. The export handler never serializes: every call ends in an error,
  so the repository itself produces no native JSON document. For every theme \<open>t\<close> with a
  non-empty name, whatever its colours, a file whose JSON is the native shape of \<open>t\<close>
  (an object with \<open>t\<close>'s name and \<open>t\<close>'s \<^verbatim>\<open>colors\<close> object) is parsed back by the JSON
  parser to exactly \<open>t\<close>: the returned object is \<open>t\<close>'s and is no other theme's.
\<close>

theorem native_json_parses_back:
  "(\<exists>m. exportTheme themeId format filePath dialogPath = Inl (Error m)) \<and>
   (readFileSync e p = Some content \<and> jsonParse e content = Some (themeJson t) \<and> name t \<noteq> [] \<longrightarrow>
      parseJson e p = ([p], Inr (themeJson t)) \<and>
      (\<forall>t'. themeJson t' = themeJson t \<longrightarrow> t' = t))"
  using exportTheme_fails parseJson_native themeJson_inject by blast

theorem native_json_parses_back_witness:
  "readFileSync (jsonFile ''/themes/night.json'' (themeJson (unnamedTheme\<lparr>name := ''Tokyo Night''\<rparr>)))
      ''/themes/night.json'' = Some ''(the text of the document)'' \<and>
   jsonParse (jsonFile ''/themes/night.json'' (themeJson (unnamedTheme\<lparr>name := ''Tokyo Night''\<rparr>)))
      ''(the text of the document)'' = Some (themeJson (unnamedTheme\<lparr>name := ''Tokyo Night''\<rparr>)) \<and>
   name (unnamedTheme\<lparr>name := ''Tokyo Night''\<rparr>) \<noteq> [] \<and>
   parseJson (jsonFile ''/themes/night.json'' (themeJson (unnamedTheme\<lparr>name := ''Tokyo Night''\<rparr>)))
      ''/themes/night.json'' =
     ([''/themes/night.json''], Inr (themeJson (unnamedTheme\<lparr>name := ''Tokyo Night''\<rparr>)))"
proof -
  let ?t = "unnamedTheme\<lparr>name := ''Tokyo Night''\<rparr>"
  let ?e = "jsonFile ''/themes/night.json'' (themeJson ?t)"
  have r: "readFileSync ?e ''/themes/night.json'' = Some ''(the text of the document)''"
    by (simp add: jsonFile_def)
  have j: "jsonParse ?e ''(the text of the document)'' = Some (themeJson ?t)"
    by (simp add: jsonFile_def)
  have n: "name ?t \<noteq> []"
    by simp
  from native_json_parses_back [of _ _ _ _ ?e "''/themes/night.json''" "''(the text of the document)''" ?t]
    r j n
  show ?thesis by blast
qed

text \<open>
  Claim C4 as stated fails twice. Exporting to the \<^verbatim>\<open>json\<close> format throws
  \<^verbatim>\<open>Export not yet implemented\<close> instead of serializing. And for the theme with valid
  colours and an empty name, the native document parses back with the file's base name
  \<^verbatim>\<open>night\<close> in place of the empty name (\<^verbatim>\<open>data.name || name\<close>), a different theme.
\<close>

theorem empty_name_not_parsed_back:
  "list_all isHexColor (slots (colors unnamedTheme)) \<and>
   exportTheme ''theme-1'' ''json'' (Some ''/themes/night.json'') None =
     Inl (Error ''Export not yet implemented. Coming soon!'') \<and>
   parseJson (jsonFile ''/themes/night.json'' (themeJson unnamedTheme)) ''/themes/night.json'' =
     ([''/themes/night.json''], Inr (themeJson (unnamedTheme\<lparr>name := ''night''\<rparr>))) \<and>
   themeJson (unnamedTheme\<lparr>name := ''night''\<rparr>) \<noteq> themeJson unnamedTheme"
proof -
  have valid: "list_all isHexColor (slots (colors unnamedTheme))"
    by (simp add: unnamedTheme_def slots_def colorsFromMap_def orElse_def isHexColor_def)
  have ex: "exportTheme ''theme-1'' ''json'' (Some ''/themes/night.json'') None =
      Inl (Error ''Export not yet implemented. Coming soon!'')"
    by (simp add: exportTheme_def)
  have b: "basename ''/themes/night.json'' ''.json'' = ''night''"
    by (simp add: basename_def lastComponent_def endsWith_def)
  have p: "parseJson (jsonFile ''/themes/night.json'' (themeJson unnamedTheme)) ''/themes/night.json'' =
      ([''/themes/night.json''], Inr (themeJson (unnamedTheme\<lparr>name := ''night''\<rparr>)))"
    by (simp add: parseJson_def jsonFile_def noFiles_def themeJson_def colorsJson_def ansiJson_def
        orName_def b unnamedTheme_def)
  have ne: "themeJson (unnamedTheme\<lparr>name := ''night''\<rparr>) \<noteq> themeJson unnamedTheme"
    by (simp add: themeJson_def unnamedTheme_def)
  from valid ex p ne show ?thesis by blast
qed

section \<open>Properties of the PowerShell profile installer\<close>

lemma startsWith_iff: "startsWith s p \<longleftrightarrow> (\<exists>r. s = p @ r)"
proof
  assume "startsWith s p"
  then have "s = p @ drop (length p) s"
    unfolding startsWith_def by (metis append_take_drop_id)
  then show "\<exists>r. s = p @ r" ..
next
  assume "\<exists>r. s = p @ r"
  then show "startsWith s p"
    by (auto simp: startsWith_def)
qed

lemma blockEnds_shape:
  assumes "blockEnds r" and "r \<noteq> []"
  shows "\<exists>r'. r = CHR 0x0A # CHR ''#'' # CHR '' '' # r' \<and> \<not> startsWith r' ''ShellShade''"
proof -
  from assms have s: "startsWith r (CHR 0x0A # ''# '')" and n: "\<not> startsWith (drop 3 r) ''ShellShade''"
    by (auto simp: blockEnds_def)
  from s obtain r' where r: "r = (CHR 0x0A # ''# '') @ r'"
    unfolding startsWith_iff by blast
  then have "drop 3 r = r'" by simp
  with n r show ?thesis by simp
qed

lemma skipBlock_append:
  assumes "blockEnds b" and "b \<noteq> []"
  shows "skipBlock (a @ b) \<noteq> [] \<and> blockEnds (skipBlock (a @ b))"
proof (induction a)
  case Nil
  from assms show ?case by (cases b) auto
next
  case (Cons x a)
  then show ?case by auto
qed

lemma trim_Nil: "trim [] = []"
  by (simp add: trim_def)

lemma removeBlocks_keeps_hash:
  assumes "blockEnds r" and "r \<noteq> []"
  shows "\<exists>t. removeBlocks r = CHR 0x0A # CHR ''#'' # t"
proof -
  from blockEnds_shape [OF assms] obtain r' where
    r: "r = CHR 0x0A # CHR ''#'' # CHR '' '' # r'" and n: "\<not> startsWith r' ''ShellShade''"
    by blast
  have n1: "\<not> startsWith (CHR 0x0A # CHR ''#'' # CHR '' '' # r') (CHR 0x0A # blockHeader)"
  proof
    assume "startsWith (CHR 0x0A # CHR ''#'' # CHR '' '' # r') (CHR 0x0A # blockHeader)"
    then obtain t where "CHR 0x0A # CHR ''#'' # CHR '' '' # r' = (CHR 0x0A # blockHeader) @ t"
      unfolding startsWith_iff by blast
    then have "r' = ''ShellShade'' @ ('' Theme:'' @ t)"
      by (simp add: blockHeader_def)
    with n show False unfolding startsWith_iff by blast
  qed
  have n2: "\<not> startsWith (CHR 0x0A # CHR ''#'' # CHR '' '' # r') blockHeader"
    by (simp add: startsWith_def blockHeader_def)
  have n3: "\<not> startsWith (CHR ''#'' # CHR '' '' # r') (CHR 0x0A # blockHeader)"
    by (simp add: startsWith_def blockHeader_def)
  have n4: "\<not> startsWith (CHR ''#'' # CHR '' '' # r') blockHeader"
  proof
    assume "startsWith (CHR ''#'' # CHR '' '' # r') blockHeader"
    then obtain t where "CHR ''#'' # CHR '' '' # r' = blockHeader @ t"
      unfolding startsWith_iff by blast
    then have "r' = ''ShellShade'' @ ('' Theme:'' @ t)"
      by (simp add: blockHeader_def)
    with n show False unfolding startsWith_iff by blast
  qed
  show ?thesis
    unfolding r using n1 n2 n3 n4 by simp
qed


lemma psColorScript_shape:
  "\<exists>tail. psColorScript c n =
     CHR 0x0A # blockHeader @ '' '' @ n @ CHR 0x0A # ''# Generated by ShellShade'' @ tail"
  by (simp add: psColorScript_def blockHeader_def)

lemma in_set_dropWhile: "x \<in> set s \<Longrightarrow> \<not> P x \<Longrightarrow> x \<in> set (dropWhile P s)"
  by (induction s) auto

lemma trim_nonempty:
  assumes "x \<in> set s" and "\<not> isSpace x"
  shows "trim s \<noteq> []"
proof -
  from assms have "x \<in> set (rev (dropWhile isSpace s))"
    by (simp add: in_set_dropWhile)
  with assms(2) have "x \<in> set (dropWhile isSpace (rev (dropWhile isSpace s)))"
    using in_set_dropWhile [of x "rev (dropWhile isSpace s)" isSpace] by blast
  then have "dropWhile isSpace (rev (dropWhile isSpace s)) \<noteq> []"
    by (metis empty_iff list.set(1))
  then show ?thesis
    unfolding trim_def by (metis rev_is_Nil_conv)
qed

lemma removeBlocks_after_one_block:
  "\<exists>t. removeBlocks (CHR 0x0A # psColorScript c n) = CHR 0x0A # CHR 0x0A # CHR ''#'' # t"
proof -
  from psColorScript_shape obtain tail where
    s: "psColorScript c n =
      CHR 0x0A # blockHeader @ '' '' @ n @ CHR 0x0A # ''# Generated by ShellShade'' @ tail"
    by blast
  let ?b = "CHR 0x0A # ''# Generated by ShellShade'' @ tail"
  have b: "blockEnds ?b" "?b \<noteq> []"
    by (simp_all add: blockEnds_def startsWith_def)
  have first: "removeBlocks (CHR 0x0A # CHR 0x0A # blockHeader @ '' '' @ n @ ?b) =
      CHR 0x0A # removeBlocks (CHR 0x0A # blockHeader @ '' '' @ n @ ?b)"
    by (simp add: startsWith_def blockHeader_def)
  have hd: "startsWith (CHR 0x0A # blockHeader @ '' '' @ n @ ?b) (CHR 0x0A # blockHeader)"
    unfolding startsWith_iff by simp
  have second: "removeBlocks (CHR 0x0A # blockHeader @ '' '' @ n @ ?b) =
      removeBlocks (skipBlock (('' '' @ n) @ ?b))"
    using hd by simp
  from skipBlock_append [OF b, of "'' '' @ n"]
  have "\<exists>t. removeBlocks (skipBlock (('' '' @ n) @ ?b)) = CHR 0x0A # CHR ''#'' # t"
    by (intro removeBlocks_keeps_hash) simp_all
  with first second show ?thesis
    unfolding s by simp
qed

text \<open>On a short text: the header line goes, the rest of the block stays.\<close>

lemma removeBlocks_header_only:
  "removeBlocks (CHR 0x0A # ''# ShellShade Theme: T'' @ CHR 0x0A # ''# Generated by ShellShade'' @
                 CHR 0x0A # ''x = 1'')
     = CHR 0x0A # ''# Generated by ShellShade'' @ CHR 0x0A # ''x = 1''"
  by (simp add: startsWith_def blockHeader_def blockEnds_def)

text \<open>
  Claim C3 fails on the code: on a machine with no profile yet, for every theme, applying
  the theme once leaves a line break followed by the generated block, and applying it
  again leaves a non-empty remainder of the first block in front of the new block, so
  the two profiles differ. The pattern's lookahead already holds in front of the block's
  own second line (\<^verbatim>\<open># Generated by ShellShade ...\<close>: the word after \<^verbatim>\<open># \<close> is
  \<^verbatim>\<open>Generated\<close>), so only the header line of the old block is removed.
\<close>

theorem powershell_reapply_keeps_old_block:
  "profileAfter c n freshDisk = Some (CHR 0x0A # psColorScript c n) \<and>
   (\<exists>kept. kept \<noteq> [] \<and>
      profileAfterTwice c n freshDisk = Some (kept @ CHR 0x0A # psColorScript c n)) \<and>
   profileAfterTwice c n freshDisk \<noteq> profileAfter c n freshDisk"
proof -
  have once: "applyToPowerShell c n freshDisk =
      Inr (ApplyResult True
             (''Theme applied to PowerShell profile!'' @ [CHR 0x0A] @
              ''Restart PowerShell to see changes.'' @ [CHR 0x0A] @
              ''For full 24-bit color, use Windows Terminal.''),
           freshDisk\<lparr>psDirExists := True, psProfile := Some (CHR 0x0A # psColorScript c n)\<rparr>)"
    by (simp add: applyToPowerShell_def freshDisk_def trim_Nil)
  then have p1: "profileAfter c n freshDisk = Some (CHR 0x0A # psColorScript c n)"
    by (simp add: profileAfter_def)
  from removeBlocks_after_one_block obtain t where
    t: "removeBlocks (CHR 0x0A # psColorScript c n) = CHR 0x0A # CHR 0x0A # CHR ''#'' # t"
    by blast
  have kept: "trim (removeBlocks (CHR 0x0A # psColorScript c n)) \<noteq> []"
    unfolding t by (rule trim_nonempty [of "CHR ''#''"]) (simp_all add: isSpace_def)
  have p2: "profileAfterTwice c n freshDisk =
      Some (trim (removeBlocks (CHR 0x0A # psColorScript c n)) @ CHR 0x0A # psColorScript c n)"
    by (simp add: profileAfterTwice_def once profileAfter_def applyToPowerShell_def freshDisk_def
        trim_Nil del: removeBlocks.simps(2))
  from p1 p2 kept show ?thesis by auto
qed

section \<open>Properties of the iTerm2 installers\<close>

text \<open>
  Claim C6, as amended. Whenever an iTerm2 installer returns a result (creating the
  profiles directory did not throw): if the profile write succeeds and the AppleScript
  live-apply fails, the result is a success carrying non-empty manual instructions (the
  \<^verbatim>\<open>instructions\<close> of the desktop installer, the \<^verbatim>\<open>message\<close> of the command line), and the
  written profile is still on disk. The command-line installer fails exactly when the
  write fails. The desktop installer fails, with an \<^verbatim>\<open>error\<close>, exactly when the write
  fails or the colour lookup found no row for the theme (\<^verbatim>\<open>Theme not found\<close>, returned
  before any write).
\<close>

theorem iterm2_write_and_live_apply:
  "(installToIterm2 themes db themeId m = Inr (r, m') \<longrightarrow>
      (\<not> success r \<longleftrightarrow>
         getThemeColors db themeId = None \<or>
         writeError m (pathJoin (dynamicProfilesDir m)
                         (slugName (getThemeName themes themeId) @ ''.json'')) \<noteq> None) \<and>
      (\<not> success r \<longrightarrow> error r \<noteq> None) \<and>
      (getThemeColors db themeId \<noteq> None \<and>
       writeError m (pathJoin (dynamicProfilesDir m)
                       (slugName (getThemeName themes themeId) @ ''.json'')) = None \<and>
       commandFails m (osascriptCommand (appleScript (getThemeName themes themeId))) \<longrightarrow>
         success r \<and> (\<exists>i. instructions r = Some i \<and> i \<noteq> []) \<and>
         written m' (path r) \<noteq> None)) \<and>
   (applyToIterm2 c themeName themeId m = Inr (a, m'') \<longrightarrow>
      (\<not> succeeded a \<longleftrightarrow>
         writeError m (pathJoin (dynamicProfilesDir m)
                         (''shellshade-'' @ slugName themeName @ ''.json'')) \<noteq> None) \<and>
      (writeError m (pathJoin (dynamicProfilesDir m)
                       (''shellshade-'' @ slugName themeName @ ''.json'')) = None \<and>
       commandFails m (osascriptCommand (appleScript themeName)) \<longrightarrow>
         succeeded a \<and> message a \<noteq> [] \<and>
         written m'' (pathJoin (dynamicProfilesDir m)
                        (''shellshade-'' @ slugName themeName @ ''.json'')) \<noteq> None))"
proof -
  have desktop: "installToIterm2 themes db themeId m = Inr (r, m') \<longrightarrow>
      (\<not> success r \<longleftrightarrow>
         getThemeColors db themeId = None \<or>
         writeError m (pathJoin (dynamicProfilesDir m)
                         (slugName (getThemeName themes themeId) @ ''.json'')) \<noteq> None) \<and>
      (\<not> success r \<longrightarrow> error r \<noteq> None) \<and>
      (getThemeColors db themeId \<noteq> None \<and>
       writeError m (pathJoin (dynamicProfilesDir m)
                       (slugName (getThemeName themes themeId) @ ''.json'')) = None \<and>
       commandFails m (osascriptCommand (appleScript (getThemeName themes themeId))) \<longrightarrow>
         success r \<and> (\<exists>i. instructions r = Some i \<and> i \<noteq> []) \<and>
         written m' (path r) \<noteq> None)"
    by (auto simp: installToIterm2_def Let_def split: option.splits if_splits)
  have cli: "applyToIterm2 c themeName themeId m = Inr (a, m'') \<longrightarrow>
      (\<not> succeeded a \<longleftrightarrow>
         writeError m (pathJoin (dynamicProfilesDir m)
                         (''shellshade-'' @ slugName themeName @ ''.json'')) \<noteq> None) \<and>
      (writeError m (pathJoin (dynamicProfilesDir m)
                       (''shellshade-'' @ slugName themeName @ ''.json'')) = None \<and>
       commandFails m (osascriptCommand (appleScript themeName)) \<longrightarrow>
         succeeded a \<and> message a \<noteq> [] \<and>
         written m'' (pathJoin (dynamicProfilesDir m)
                        (''shellshade-'' @ slugName themeName @ ''.json'')) \<noteq> None)"
    by (auto simp: applyToIterm2_def Let_def dynamicProfilesDir_def split: option.splits if_splits)
  from desktop cli show ?thesis by blast
qed


theorem iterm2_write_and_live_apply_witness:
  "(\<exists>r m'. installToIterm2 [(''t1'', ''Tokyo Night'')] [(''t1'', ''background'', ''#1a1b26'')] ''t1''
              noScripting = Inr (r, m') \<and>
           success r \<and> (\<exists>i. instructions r = Some i \<and> i \<noteq> []) \<and> written m' (path r) \<noteq> None) \<and>
   (\<exists>a m''. applyToIterm2 (colorsFromMap Map.empty) ''Tokyo Night'' ''t1'' noScripting = Inr (a, m'') \<and>
           succeeded a \<and> message a \<noteq> [])"
proof -
  let ?themes = "[(''t1'', ''Tokyo Night'')]"
  let ?db = "[(''t1'', ''background'', ''#1a1b26'')]"
  have found: "getThemeColors ?db ''t1'' \<noteq> None"
    by (simp add: getThemeColors_def selectColors_def)
  have w: "\<And>p. writeError noScripting p = None"
    by (simp add: noScripting_def)
  have f: "\<And>cmd. commandFails noScripting cmd"
    by (simp add: noScripting_def)
  have "\<exists>r m'. installToIterm2 ?themes ?db ''t1'' noScripting = Inr (r, m')"
    using found by (auto simp: installToIterm2_def noScripting_def Let_def)
  then obtain r m' where r: "installToIterm2 ?themes ?db ''t1'' noScripting = Inr (r, m')"
    by blast
  have "\<exists>a m''. applyToIterm2 (colorsFromMap Map.empty) ''Tokyo Night'' ''t1'' noScripting = Inr (a, m'')"
    by (simp add: applyToIterm2_def noScripting_def Let_def)
  then obtain a m'' where
    a: "applyToIterm2 (colorsFromMap Map.empty) ''Tokyo Night'' ''t1'' noScripting = Inr (a, m'')"
    by blast
  from iterm2_write_and_live_apply
         [of ?themes ?db "''t1''" noScripting r m' "colorsFromMap Map.empty" "''Tokyo Night''" a m'']
       r a found w f
  show ?thesis by auto
qed

text \<open>
  Claim C6 as stated fails for the desktop installer: for a theme id without colour rows
  it returns \<^verbatim>\<open>success: false\<close> with the error \<^verbatim>\<open>Theme not found\<close> and leaves the machine
  untouched, on a machine where the write of the profile would not have failed.
\<close>

theorem theme_not_found_fails_without_write:
  "installToIterm2 [] [] ''t1'' noScripting =
     Inr (\<lparr> success = False, path = [], instructions = None, error = Some ''Theme not found'' \<rparr>,
          noScripting) \<and>
   writeError noScripting
     (pathJoin (dynamicProfilesDir noScripting) (slugName (getThemeName [] ''t1'') @ ''.json'')) = None"
  by (simp add: installToIterm2_def getThemeColors_def selectColors_def noScripting_def)

section \<open>Properties of the Windows Terminal installer\<close>

lemma filterSchemes_kept:
  "filterSchemes n ss = Inr kept \<Longrightarrow> \<forall>s \<in> set kept. lookup s ''name'' \<noteq> Some (JStr n)"
proof (induction ss arbitrary: kept)
  case Nil
  then show ?case by simp
next
  case (Cons s ss)
  then show ?case
    by (auto split: if_splits sum.splits)
qed

lemma filterSchemes_total: "JNull \<notin> set ss \<Longrightarrow> \<exists>kept. filterSchemes n ss = Inr kept"
  by (induction ss) auto

lemma map_of_setProp_same: "map_of (setProp kvs k v) k = Some v"
  by (induction kvs) auto

lemma map_of_setProp_other: "k' \<noteq> k \<Longrightarrow> map_of (setProp kvs k v) k' = map_of kvs k'"
  by (induction kvs) auto

lemma replaceScheme_schemes:
  assumes "replaceScheme kvs n sch = Inr kvs1"
  shows "\<exists>kept. map_of kvs1 ''schemes'' = Some (JArr (kept @ [sch])) \<and>
               (\<forall>s \<in> set kept. lookup s ''name'' \<noteq> Some (JStr n))"
  using assms
  by (auto simp: replaceScheme_def map_of_setProp_same dest!: filterSchemes_kept
      split: json.splits sum.splits if_splits)

lemma replaceScheme_others:
  assumes "replaceScheme kvs n sch = Inr kvs1" and "k \<noteq> ''schemes''"
  shows "map_of kvs1 k = map_of kvs k"
  using assms
  by (auto simp: replaceScheme_def map_of_setProp_other split: json.splits sum.splits if_splits)

lemma setDefaultScheme_others:
  assumes "setDefaultScheme kvs n = Inr kvs2" and "k \<noteq> ''profiles''"
  shows "map_of kvs2 k = map_of kvs k"
  using assms
  by (auto simp: setDefaultScheme_def map_of_setProp_other split: json.splits if_splits)

lemma mergeScheme_object:
  assumes "mergeScheme (JObj kvs) n sch = Inr v"
  shows "\<exists>kept. lookup v ''schemes'' = Some (JArr (kept @ [sch])) \<and>
               (\<forall>s \<in> set kept. lookup s ''name'' \<noteq> Some (JStr n))"
proof -
  from assms obtain kvs1 kvs2 where
    r: "replaceScheme kvs n sch = Inr kvs1" and d: "setDefaultScheme kvs1 n = Inr kvs2"
    and v: "v = JObj kvs2"
    by (auto simp: mergeScheme_def split: sum.splits)
  have "map_of kvs2 ''schemes'' = map_of kvs1 ''schemes''"
    using setDefaultScheme_others [OF d] by simp
  with replaceScheme_schemes [OF r] v show ?thesis by simp
qed

lemma mergeScheme_object_result:
  assumes "mergeScheme (JObj kvs) n sch = Inr v"
  shows "\<exists>kvs'. v = JObj kvs'"
  using assms by (auto simp: mergeScheme_def split: sum.splits)

lemma mergeScheme_succeeds_on:
  assumes "mergeScheme w n sch = Inr v"
  shows "(\<exists>xs. w = JArr xs) \<or> (\<exists>kvs. w = JObj kvs)"
  using assms by (cases w) (auto simp: mergeScheme_def)

lemma schemesNamed_single:
  assumes "lookup v ''schemes'' = Some (JArr (kept @ [sch]))"
    and "\<forall>s \<in> set kept. lookup s ''name'' \<noteq> Some (JStr n)"
    and "lookup sch ''name'' = Some (JStr n)"
  shows "schemesNamed n v = [sch]"
  using assms by (simp add: schemesNamed_def filter_empty_conv [THEN iffD2])

lemma colorScheme_name: "lookup (colorScheme c n) ''name'' = Some (JStr n)"
  by (simp add: colorScheme_def)

lemma mergeScheme_named_once:
  assumes "mergeScheme w n (colorScheme c n) = Inr v" and "\<forall>xs. w \<noteq> JArr xs"
  shows "schemesNamed n v = [colorScheme c n]"
proof -
  from mergeScheme_succeeds_on [OF assms(1)] assms(2) obtain kvs where w: "w = JObj kvs"
    by blast
  from mergeScheme_object [OF assms(1) [unfolded w]] obtain kept where
    "lookup v ''schemes'' = Some (JArr (kept @ [colorScheme c n]))"
    "\<forall>s \<in> set kept. lookup s ''name'' \<noteq> Some (JStr n)"
    by blast
  then show ?thesis
    using colorScheme_name by (rule schemesNamed_single)
qed

lemma schemesOk_replaces:
  assumes "schemesOk kvs"
  shows "\<exists>kvs1. replaceScheme kvs n sch = Inr kvs1"
proof (cases "truthy (map_of kvs ''schemes'')")
  case False
  then show ?thesis by (simp add: replaceScheme_def)
next
  case True
  with assms obtain ss where ss: "map_of kvs ''schemes'' = Some (JArr ss)" "JNull \<notin> set ss"
    by (auto simp: schemesOk_def split: option.splits json.splits)
  from filterSchemes_total [OF ss(2)] obtain kept where "filterSchemes n ss = Inr kept"
    by blast
  with True ss show ?thesis by (simp add: replaceScheme_def)
qed

lemma profilesOk_sets_default:
  assumes "profilesOk kvs"
  shows "\<exists>kvs2. setDefaultScheme kvs n = Inr kvs2"
proof (cases "truthy (map_of kvs ''profiles'')")
  case False
  then show ?thesis by (simp add: setDefaultScheme_def)
next
  case True
  with assms consider (obj) ps where "map_of kvs ''profiles'' = Some (JObj ps)" "defaultsOk ps"
    | (arr) ps where "map_of kvs ''profiles'' = Some (JArr ps)"
    by (auto simp: profilesOk_def split: option.splits json.splits)
  then show ?thesis
  proof cases
    case arr
    with True show ?thesis by (simp add: setDefaultScheme_def)
  next
    case obj
    show ?thesis
    proof (cases "truthy (map_of ps ''defaults'')")
      case False
      with True obj show ?thesis by (simp add: setDefaultScheme_def)
    next
      case t: True
      with obj(2) have "(\<exists>ds. map_of ps ''defaults'' = Some (JObj ds)) \<or>
          (\<exists>ds. map_of ps ''defaults'' = Some (JArr ds))"
        by (auto simp: defaultsOk_def split: option.splits json.splits)
      with True obj t show ?thesis by (auto simp: setDefaultScheme_def)
    qed
  qed
qed

lemma wtDocument_merges:
  assumes "wtDocument w"
  shows "\<exists>v. mergeScheme w n sch = Inr v"
proof -
  from assms obtain kvs where w: "w = JObj kvs" and ok: "schemesOk kvs" "profilesOk kvs"
    by (cases w) (simp_all add: wtDocument_def)
  from schemesOk_replaces [OF ok(1)] obtain kvs1 where r: "replaceScheme kvs n sch = Inr kvs1"
    by blast
  have "map_of kvs1 ''profiles'' = map_of kvs ''profiles''"
    using replaceScheme_others [OF r] by simp
  with ok(2) have "profilesOk kvs1"
    by (simp add: profilesOk_def)
  from profilesOk_sets_default [OF this] obtain kvs2 where "setDefaultScheme kvs1 n = Inr kvs2"
    by blast
  with r w show ?thesis by (simp add: mergeScheme_def)
qed

lemma wtDocument_not_array: "wtDocument w \<Longrightarrow> w \<noteq> JArr xs"
  by (cases w) (simp_all add: wtDocument_def)

lemma wtDocument_defaultSettings: "wtDocument defaultSettings"
  by (simp add: wtDocument_def defaultSettings_def schemesOk_def profilesOk_def defaultsOk_def)


lemma settings_paths_differ: "packagedSettings m \<noteq> previewSettings m"
  by (simp add: packagedSettings_def previewSettings_def pathJoin_def)

lemma install_file:
  assumes "settingsWriteError m (settingsPath m) = None" and "\<not> previewMkdirFails m"
  shows "settingsFiles (afterInstall c n m) (settingsPath m) =
           (case mergeScheme (readSettings m) n (colorScheme c n) of
              Inl e \<Rightarrow> settingsFiles m (settingsPath m)
            | Inr v \<Rightarrow> Some \<lparr>document = Some v, parsed = reread m v\<rparr>)"
  using assms
  by (simp add: afterInstall_def applyToWindowsTerminal_def Let_def split: sum.splits)

lemma install_other_files:
  assumes "p \<noteq> settingsPath m"
  shows "settingsFiles (afterInstall c n m) p = settingsFiles m p"
  using assms
  by (simp add: afterInstall_def applyToWindowsTerminal_def Let_def split: sum.splits option.splits)

lemma install_frame:
  "localAppData (afterInstall c n m) = localAppData m \<and>
   reread (afterInstall c n m) = reread m \<and>
   settingsWriteError (afterInstall c n m) = settingsWriteError m \<and>
   previewMkdirFails (afterInstall c n m) = previewMkdirFails m"
  by (simp add: afterInstall_def applyToWindowsTerminal_def Let_def split: sum.splits option.splits)

lemma install_keeps_existing:
  assumes "settingsFiles m p \<noteq> None"
  shows "settingsFiles (afterInstall c n m) p \<noteq> None"
  using assms
  by (simp add: afterInstall_def applyToWindowsTerminal_def Let_def split: sum.splits option.splits)

lemma install_settingsPath: "settingsPath (afterInstall c n m) = settingsPath m"
proof (cases "settingsFiles m (packagedSettings m) = None")
  case False
  then have "settingsFiles (afterInstall c n m) (packagedSettings m) \<noteq> None"
    by (rule install_keeps_existing)
  with False show ?thesis
    using install_frame [of c n m] by (simp add: settingsPath_def packagedSettings_def)
next
  case True
  then have p: "settingsPath m = previewSettings m"
    by (simp add: settingsPath_def)
  then have "packagedSettings m \<noteq> settingsPath m"
    using settings_paths_differ by simp
  then have "settingsFiles (afterInstall c n m) (packagedSettings m) = None"
    using True install_other_files by simp
  with p show ?thesis
    using install_frame [of c n m]
    by (simp add: settingsPath_def packagedSettings_def previewSettings_def)
qed

text \<open>
  Claim C5. Start from any machine the installer is meant for: no settings file, a file
  whose text does not parse, or a settings document. Let the two installs run (creating
  the directory and writing the file do not fail). Then the settings file holds a
  document with exactly one scheme entry of the theme's name, the scheme just built: the
  second install replaced the first install's entry. In that entry ANSI magenta and bright
  magenta are under the keys \<^verbatim>\<open>purple\<close> and \<^verbatim>\<open>brightPurple\<close>, and there is no
  \<^verbatim>\<open>magenta\<close> key.

  The last hypothesis is a fact of JSON text: the text written for an object starts with
  an opening brace, which neither comment pattern can remove, so reading it back gives
  an object or fails, never an array. Whatever else the comment stripper does to the
  text (a theme name may contain \<^verbatim>\<open>//\<close>) is covered.
\<close>

theorem windows_terminal_install_twice:
  assumes "wtStart m"
    and "\<not> previewMkdirFails m"
    and "settingsWriteError m (settingsPath m) = None"
    and "\<forall>kvs xs. reread m (JObj kvs) \<noteq> Some (JArr xs)"
  shows "(\<exists>f v. settingsFiles (afterInstall c n (afterInstall c n m)) (settingsPath m) = Some f \<and>
            document f = Some v \<and> schemesNamed n v = [colorScheme c n]) \<and>
         lookup (colorScheme c n) ''purple'' = Some (JStr (magenta (ansi c))) \<and>
         lookup (colorScheme c n) ''brightPurple'' = Some (JStr (brightMagenta (ansi c))) \<and>
         lookup (colorScheme c n) ''magenta'' = None \<and>
         lookup (colorScheme c n) ''brightMagenta'' = None"
proof -
  let ?sch = "colorScheme c n"
  let ?m1 = "afterInstall c n m"
  let ?m2 = "afterInstall c n ?m1"
  have start: "wtDocument (readSettings m)"
    using assms(1) wtDocument_defaultSettings
    by (simp add: wtStart_def readSettings_def split: option.splits)
  from wtDocument_merges [OF start] obtain v1 where
    merge1: "mergeScheme (readSettings m) n ?sch = Inr v1"
    by blast
  have named1: "schemesNamed n v1 = [?sch]"
    using merge1 wtDocument_not_array [OF start] by (intro mergeScheme_named_once) auto
  from start obtain kvs0 where "readSettings m = JObj kvs0"
    by (cases "readSettings m") (simp_all add: wtDocument_def)
  with merge1 obtain kvs1 where v1: "v1 = JObj kvs1"
    using mergeScheme_object_result by metis
  have file1: "settingsFiles ?m1 (settingsPath m) = Some \<lparr>document = Some v1, parsed = reread m v1\<rparr>"
    using install_file [OF assms(3) assms(2), of c n] merge1 by simp
  have path1: "settingsPath ?m1 = settingsPath m"
    by (rule install_settingsPath)
  have frame1: "reread ?m1 = reread m" "settingsWriteError ?m1 = settingsWriteError m"
    "previewMkdirFails ?m1 = previewMkdirFails m"
    using install_frame [of c n m] by simp_all
  have file2: "settingsFiles ?m2 (settingsPath m) =
      (case mergeScheme (readSettings ?m1) n ?sch of
         Inl e \<Rightarrow> Some \<lparr>document = Some v1, parsed = reread m v1\<rparr>
       | Inr v \<Rightarrow> Some \<lparr>document = Some v, parsed = reread m v\<rparr>)"
    using install_file [of ?m1 c n] assms(2) assms(3) path1 frame1 file1
    by (simp split: sum.splits)
  have read1: "readSettings ?m1 = (case reread m v1 of None \<Rightarrow> defaultSettings | Some w \<Rightarrow> w)"
    by (simp add: readSettings_def path1 file1)
  have final: "\<exists>f v. settingsFiles ?m2 (settingsPath m) = Some f \<and> document f = Some v \<and>
      schemesNamed n v = [?sch]"
  proof (cases "mergeScheme (readSettings ?m1) n ?sch")
    case (Inl e)
    with file2 named1 show ?thesis by simp
  next
    case (Inr v2)
    have "\<forall>xs. readSettings ?m1 \<noteq> JArr xs"
    proof (cases "reread m v1")
      case None
      with read1 show ?thesis
        using wtDocument_not_array [OF wtDocument_defaultSettings] by simp
    next
      case (Some w)
      with read1 assms(4) v1 show ?thesis by auto
    qed
    with Inr have "schemesNamed n v2 = [?sch]"
      by (intro mergeScheme_named_once)
    with file2 Inr show ?thesis by simp
  qed
  have keys: "lookup ?sch ''purple'' = Some (JStr (magenta (ansi c)))"
    "lookup ?sch ''brightPurple'' = Some (JStr (brightMagenta (ansi c)))"
    "lookup ?sch ''magenta'' = None" "lookup ?sch ''brightMagenta'' = None"
    by (simp_all add: colorScheme_def)
  from final keys show ?thesis by blast
qed


theorem windows_terminal_install_twice_witness:
  "wtStart usedWindows \<and> \<not> previewMkdirFails usedWindows \<and>
   settingsWriteError usedWindows (settingsPath usedWindows) = None \<and>
   (\<forall>kvs xs. reread usedWindows (JObj kvs) \<noteq> Some (JArr xs)) \<and>
   (\<exists>f v. settingsFiles (afterInstall (colorsFromMap Map.empty) ''Tokyo Night''
                            (afterInstall (colorsFromMap Map.empty) ''Tokyo Night'' usedWindows))
              (settingsPath usedWindows) = Some f \<and>
          document f = Some v \<and>
          schemesNamed ''Tokyo Night'' v = [colorScheme (colorsFromMap Map.empty) ''Tokyo Night''])"
proof -
  have p: "settingsPath usedWindows = previewSettings freshWindows"
    by (simp add: settingsPath_def usedWindows_def freshWindows_def packagedSettings_def
        previewSettings_def pathJoin_def)
  have s: "wtStart usedWindows"
    unfolding wtStart_def p
    by (simp add: usedWindows_def wtDocument_def schemesOk_def profilesOk_def defaultsOk_def)
  have k: "\<not> previewMkdirFails usedWindows"
    by (simp add: usedWindows_def freshWindows_def)
  have w: "settingsWriteError usedWindows (settingsPath usedWindows) = None"
    by (simp add: usedWindows_def freshWindows_def)
  have r: "\<forall>kvs xs. reread usedWindows (JObj kvs) \<noteq> Some (JArr xs)"
    by (simp add: usedWindows_def freshWindows_def)
  from windows_terminal_install_twice [OF s k w r] s k w r show ?thesis
    by blast
qed

end
